theory Spec2Isabelle
  imports Complex_Main
begin

section \<open>Python strings\<close>

text \<open>
  A Python \<open>str\<close> is a sequence of code points. It is modelled as a \<open>string\<close>
  (a \<open>char list\<close>) whose characters are read as the code points 0 to 255, so that
  \<open>length\<close> is Python's \<open>len\<close>. The three library methods the program calls
  on its strings are written out for that range: \<open>str.isspace\<close> (the characters that
  \<open>strip()\<close> and \<open>split()\<close> treat as whitespace), \<open>str.lower\<close>,
  \<open>str.strip\<close>, \<open>str.split\<close> without arguments and \<open>sep.join\<close>.
\<close>

definition py_isspace :: "char \<Rightarrow> bool" where
  "py_isspace c =
     (let n = (of_char c :: nat)
      in (9 \<le> n \<and> n \<le> 13) \<or> (28 \<le> n \<and> n \<le> 32) \<or> n = 133 \<or> n = 160)"

definition py_lower_char :: "char \<Rightarrow> char" where
  "py_lower_char c =
     (let n = (of_char c :: nat)
      in if (65 \<le> n \<and> n \<le> 90) \<or> (192 \<le> n \<and> n \<le> 222 \<and> n \<noteq> 215)
         then char_of (n + 32) else c)"

definition py_lower :: "string \<Rightarrow> string" where
  "py_lower s = map py_lower_char s"

definition py_strip :: "string \<Rightarrow> string" where
  "py_strip s = rev (dropWhile py_isspace (rev (dropWhile py_isspace s)))"

text \<open>
  \<open>s.split()\<close>: runs of whitespace separate the words, and no empty word is produced.
  \<open>cur\<close> is the word being read.
\<close>

fun py_split_from :: "string \<Rightarrow> string \<Rightarrow> string list" where
  "py_split_from cur [] = (if cur = [] then [] else [cur])"
| "py_split_from cur (c # cs) =
     (if py_isspace c
      then (if cur = [] then py_split_from [] cs else cur # py_split_from [] cs)
      else py_split_from (cur @ [c]) cs)"

definition py_split :: "string \<Rightarrow> string list" where
  "py_split s = py_split_from [] s"

fun py_join :: "string \<Rightarrow> string list \<Rightarrow> string" where
  "py_join sep [] = []"
| "py_join sep [x] = x"
| "py_join sep (x # y # ys) = x @ sep @ py_join sep (y # ys)"

section \<open>Chunking (vector\_store\_service.py, chunk\_text)\<close>

text \<open>
  The \<open>for word in words\<close> loop of \<open>chunk_text\<close>, with its three variables
  \<open>chunks\<close>, \<open>current_chunk\<close> and \<open>current_size\<close>. \<open>chunk_size\<close> is a
  Python \<open>int\<close>.
\<close>

fun chunk_loop ::
  "int \<Rightarrow> string list \<Rightarrow> string list \<Rightarrow> string list \<Rightarrow> int
     \<Rightarrow> string list \<times> string list \<times> int" where
  "chunk_loop chunk_size [] chunks current_chunk current_size =
     (chunks, current_chunk, current_size)"
| "chunk_loop chunk_size (word # words) chunks current_chunk current_size =
     (if current_size + int (length word) + 1 > chunk_size \<and> current_chunk \<noteq> []
      then chunk_loop chunk_size words (chunks @ [py_join '' '' current_chunk]) [word]
             (int (length word))
      else chunk_loop chunk_size words chunks (current_chunk @ [word])
             (current_size + int (length word) + 1))"

definition chunk_text :: "string \<Rightarrow> int \<Rightarrow> string list" where
  "chunk_text text chunk_size =
     (case chunk_loop chunk_size (py_split text) [] [] 0 of
        (chunks, current_chunk, current_size) \<Rightarrow>
          if current_chunk \<noteq> [] then chunks @ [py_join '' '' current_chunk] else chunks)"

section \<open>Exceptions, external services and the program state\<close>

text \<open>
  Every \<open>raise\<close> of the program is a value \<open>Inl e\<close>. \<open>UpstreamError\<close> stands for
  whatever exception an external client (Bedrock, S3 Vectors, OpenAI, a socket) raises.
\<close>

datatype exn =
    UpstreamError string
  | ValueError string
  | ValidationError string
  | IndexError
  | AttributeError
  | HTTPException nat string

text \<open>
  The log, kept for the records at levels WARNING and ERROR (the ones that mark a failed
  or degraded step); a record is its level and the message template of the source, with
  the interpolations left unexpanded.
\<close>

datatype level = WARNING | ERROR

text \<open>Settings (core/config.py): the fields the modelled functions read.\<close>

record settings =
  AWS_S3_VECTOR_STORE_BUCKET :: string
  DOC_INDEX_NAME :: string
  EMBEDDING_MODEL_ID :: string
  VECTOR_DIMENSION :: int

definition default_settings :: settings where
  "default_settings =
     \<lparr>AWS_S3_VECTOR_STORE_BUCKET = [], DOC_INDEX_NAME = ''vault-ai-index'',
      EMBEDDING_MODEL_ID = ''amazon.titan-embed-text-v2:0'', VECTOR_DIMENSION = 512\<rparr>"

text \<open>
  The request of \<open>s3vectors.query_vectors\<close> and the part of its response the program
  reads. The metadata of a stored vector is the dictionary written by
  \<open>create_faq_vectors\<close> and \<open>create_product_vectors\<close>; a key may be absent.
\<close>

datatype filter_expr = FAnd "filter_expr list" | FEq string int

record query_request =
  vectorBucketName :: string
  indexName :: string
  queryVector :: "real list"
  returnMetadata :: bool
  filter_arg :: filter_expr
  topK :: int

record metadata =
  md_organisation_id :: "int option"
  md_project_id :: "int option"
  md_chunk_text :: "string option"

record vector_entry =
  vec_key :: string
  vec_metadata :: "metadata option"

record query_response =
  vectors :: "vector_entry list option"

text \<open>The parsed body of a Bedrock embedding response: the key \<open>embedding\<close> may be absent.\<close>

record embedding_response =
  embedding :: "real list option"

text \<open>
  A chat completion request: the model, the system message, the user message and the
  token cap. The result of the call is \<open>response.choices[0].message.content\<close>. The
  legacy and the new OpenAI client send the same request, so one call stands for both
  branches of \<open>if self.client\<close>.
\<close>

record llm_request =
  llm_model :: string
  system_content :: string
  user_content :: string
  max_tokens :: nat

text \<open>The frames the server sends on the realtime channel (each a JSON object).\<close>

datatype frame =
    ErrorFrame string
  | TypingFrame bool
  | BotResponseFrame string bool real
  | PongFrame

type_synonym websocket = nat

datatype call =
    BedrockInvoke string string
  | S3Query query_request
  | ChatCompletion llm_request
  | WhisperTranscribe string
  | SpeechCreate string
  | Accept websocket
  | SendText websocket frame

text \<open>
  The external services are functions on an abstract world \<open>'w\<close>, which they may
  change: an answer may depend on everything that happened before.
\<close>

record 'w services =
  invoke_model :: "string \<Rightarrow> string \<Rightarrow> 'w \<Rightarrow> (exn + embedding_response) \<times> 'w"
  s3_query_vectors :: "query_request \<Rightarrow> 'w \<Rightarrow> (exn + query_response) \<times> 'w"
  chat_completions_create :: "llm_request \<Rightarrow> 'w \<Rightarrow> (exn + string) \<times> 'w"
  transcriptions_create :: "string \<Rightarrow> 'w \<Rightarrow> (exn + string) \<times> 'w"
  speech_create :: "string \<Rightarrow> 'w \<Rightarrow> (exn + unit) \<times> 'w"
  accept :: "websocket \<Rightarrow> 'w \<Rightarrow> (exn + unit) \<times> 'w"
  send_text :: "websocket \<Rightarrow> frame \<Rightarrow> 'w \<Rightarrow> (exn + unit) \<times> 'w"
  datetime_now_hour :: "'w \<Rightarrow> nat \<times> 'w"
  random_choice :: "nat \<Rightarrow> 'w \<Rightarrow> nat \<times> 'w"
  time_time :: "'w \<Rightarrow> real \<times> 'w"
  uuid4 :: "'w \<Rightarrow> string \<times> 'w"

text \<open>
  The state of the program: the world, the calls made to the external services so far,
  the log, and the connection list of the \<open>ConnectionManager\<close>.
\<close>

record 'w st =
  world :: 'w
  calls :: "call list"
  logs :: "(level \<times> string) list"
  active_connections :: "websocket list"

definition external :: "call \<Rightarrow> ('w \<Rightarrow> 'a \<times> 'w) \<Rightarrow> 'w st \<Rightarrow> 'a \<times> 'w st" where
  "external c f s =
     (case f (world s) of (r, w) \<Rightarrow> (r, s\<lparr>world := w, calls := calls s @ [c]\<rparr>))"

definition ambient :: "('w \<Rightarrow> 'a \<times> 'w) \<Rightarrow> 'w st \<Rightarrow> 'a \<times> 'w st" where
  "ambient f s = (case f (world s) of (r, w) \<Rightarrow> (r, s\<lparr>world := w\<rparr>))"

definition log_msg :: "level \<Rightarrow> string \<Rightarrow> 'w st \<Rightarrow> 'w st" where
  "log_msg lv m s = s\<lparr>logs := logs s @ [(lv, m)]\<rparr>"

section \<open>The embedding client (vector\_store\_service.py, get\_embeddings)\<close>

text \<open>
  \<open>xs[:n]\<close> for a Python \<open>int\<close> \<open>n\<close>: a negative \<open>n\<close> counts from the end.
\<close>

definition py_slice_to :: "int \<Rightarrow> 'a list \<Rightarrow> 'a list" where
  "py_slice_to n xs =
     (if 0 \<le> n then take (nat n) xs else take (nat (int (length xs) + n)) xs)"

text \<open>
  The two branches that bring an embedding to \<open>settings.VECTOR_DIMENSION\<close>:
  \<open>embedding[:VECTOR_DIMENSION]\<close> when it is longer, and
  \<open>embedding + [0.0] * (VECTOR_DIMENSION - len(embedding))\<close> when it is shorter.
\<close>

definition fit_dimension :: "settings \<Rightarrow> real list \<Rightarrow> real list" where
  "fit_dimension cfg e =
     (if int (length e) > VECTOR_DIMENSION cfg then py_slice_to (VECTOR_DIMENSION cfg) e
      else if int (length e) < VECTOR_DIMENSION cfg
           then e @ replicate (nat (VECTOR_DIMENSION cfg - int (length e))) 0
      else e)"

text \<open>
  The body of the \<open>for i, text in enumerate(texts)\<close> loop: the first failure logs and
  is raised again, so the batch stops there and no list is returned.
\<close>

fun get_embeddings_loop ::
  "'w services \<Rightarrow> settings \<Rightarrow> string list \<Rightarrow> real list list \<Rightarrow> 'w st
     \<Rightarrow> (exn + real list list) \<times> 'w st" where
  "get_embeddings_loop sv cfg [] embeddings s = (Inr embeddings, s)"
| "get_embeddings_loop sv cfg (t # texts) embeddings s =
     (case external (BedrockInvoke (EMBEDDING_MODEL_ID cfg) t)
             (invoke_model sv (EMBEDDING_MODEL_ID cfg) t) s of
        (Inl e, s1) \<Rightarrow>
          (Inl e, log_msg ERROR ''Text preview: {text[:100]}...''
                    (log_msg ERROR ''Failed to generate embedding for chunk {i+1}: {e}'' s1))
      | (Inr response_body, s1) \<Rightarrow>
          (case embedding response_body of
             None \<Rightarrow>
               (Inl (ValueError ''No embedding in response''),
                log_msg ERROR ''Text preview: {text[:100]}...''
                  (log_msg ERROR ''Failed to generate embedding for chunk {i+1}: {e}''
                     (log_msg ERROR ''Unexpected response format from Bedrock: {response_body}'' s1)))
           | Some e \<Rightarrow>
               get_embeddings_loop sv cfg texts (embeddings @ [fit_dimension cfg e]) s1))"

definition get_embeddings ::
  "'w services \<Rightarrow> settings \<Rightarrow> string list \<Rightarrow> 'w st \<Rightarrow> (exn + real list list) \<times> 'w st" where
  "get_embeddings sv cfg texts s = get_embeddings_loop sv cfg texts [] s"

section \<open>The vector index client (vector\_store\_service.py, query\_vectors)\<close>

definition query_vectors ::
  "'w services \<Rightarrow> settings \<Rightarrow> real list \<Rightarrow> int \<Rightarrow> int \<Rightarrow> int \<Rightarrow> 'w st
     \<Rightarrow> (exn + query_response) \<times> 'w st" where
  "query_vectors sv cfg query_vector organisation_id project_id limit s =
     (let request =
        \<lparr>vectorBucketName = AWS_S3_VECTOR_STORE_BUCKET cfg,
         indexName = DOC_INDEX_NAME cfg,
         queryVector = query_vector,
         returnMetadata = True,
         filter_arg = FAnd [FEq ''organisation_id'' organisation_id,
                            FEq ''project_id'' project_id],
         topK = limit\<rparr>
      in case external (S3Query request) (s3_query_vectors sv request) s of
           (Inl e, s1) \<Rightarrow> (Inl e, log_msg ERROR ''Failed to query vectors: {e}'' s1)
         | (Inr response, s1) \<Rightarrow> (Inr response, s1))"

text \<open>
  The contract of the external store for a filter, as S3 Vectors documents it:
  \<open>$eq\<close> holds when the metadata key is present with that value, \<open>$and\<close> when
  every operand holds. It is not code of the program: the store applies it.
\<close>

definition metadata_int :: "metadata \<Rightarrow> string \<Rightarrow> int option" where
  "metadata_int m k =
     (if k = ''organisation_id'' then md_organisation_id m
      else if k = ''project_id'' then md_project_id m
      else None)"

fun matches :: "filter_expr \<Rightarrow> metadata \<Rightarrow> bool" where
  "matches (FEq k v) m = (metadata_int m k = Some v)"
| "matches (FAnd fs) m = list_all (\<lambda>f. matches f m) fs"


text \<open>
  The extraction of the chunk texts from a query response, written three times in the
  source with the same text (\<open>send_message\<close>, \<open>chat\<close>, \<open>handle_user_message\<close>):
  a vector without \<open>metadata\<close> or without \<open>chunk_text\<close> contributes nothing.
\<close>

fun extract_loop :: "vector_entry list \<Rightarrow> string list \<Rightarrow> string list" where
  "extract_loop [] relevant_chunks = relevant_chunks"
| "extract_loop (v # vs) relevant_chunks =
     (case vec_metadata v of
        None \<Rightarrow> extract_loop vs relevant_chunks
      | Some m \<Rightarrow>
          (case md_chunk_text m of
             None \<Rightarrow> extract_loop vs relevant_chunks
           | Some c \<Rightarrow> extract_loop vs (relevant_chunks @ [c])))"

definition extract_relevant_chunks :: "query_response \<Rightarrow> string list" where
  "extract_relevant_chunks vector_results =
     (case vectors vector_results of None \<Rightarrow> [] | Some vs \<Rightarrow> extract_loop vs [])"

section \<open>The LLM client (llm\_service.py)\<close>

definition generate_system_prompt :: "string \<Rightarrow> string" where
  "generate_system_prompt ctx =
     ''You are a helpful assistant. ONLY use the provided context to answer the user's question. If the context does not contain relevant information to answer the question, respond with exactly: 'No context found for your query.' Do not provide general information or suggestions.''
     @ [CHR 0x0A, CHR 0x0A] @ ''Context:'' @ [CHR 0x0A] @ ctx"

definition generate_response ::
  "'w services \<Rightarrow> string \<Rightarrow> string \<Rightarrow> 'w st \<Rightarrow> (exn + string) \<times> 'w st" where
  "generate_response sv query ctx s =
     (let request =
        \<lparr>llm_model = ''gpt-3.5-turbo'', system_content = generate_system_prompt ctx,
         user_content = query, max_tokens = 500\<rparr>
      in case external (ChatCompletion request) (chat_completions_create sv request) s of
           (Inl e, s1) \<Rightarrow>
             (Inl e, log_msg ERROR ''LLM error type: {type(e)}''
                       (log_msg ERROR ''Failed to generate AI response: {e}'' s1))
         | (Inr llm_answer, s1) \<Rightarrow> (Inr llm_answer, s1))"

definition detect_system_prompt :: string where
  "detect_system_prompt =
     ''You are a language detection expert. Analyze the following text and respond with ONLY the language name in English (e.g., 'English', 'Spanish', 'French', 'German', 'Chinese', 'Japanese', 'Korean', 'Arabic', 'Hindi', 'Russian', etc.). Do not include any other text or explanations.''"

text \<open>
  \<open>_detect_language\<close> catches every exception and returns \<open>"Unknown"\<close>, so it has
  no error result.
\<close>

definition detect_language :: "'w services \<Rightarrow> string \<Rightarrow> 'w st \<Rightarrow> string \<times> 'w st" where
  "detect_language sv txt s =
     (let request =
        \<lparr>llm_model = ''gpt-3.5-turbo'', system_content = detect_system_prompt,
         user_content = take 500 txt, max_tokens = 50\<rparr>
      in case external (ChatCompletion request) (chat_completions_create sv request) s of
           (Inl e, s1) \<Rightarrow>
             (''Unknown'',
              log_msg WARNING (''Language detection failed: {e}, defaulting to 'Unknown'' @ [CHR 0x27]) s1)
         | (Inr content, s1) \<Rightarrow> (py_strip content, s1))"

definition translate_system_prompt :: "string \<Rightarrow> string \<Rightarrow> string" where
  "translate_system_prompt source_language target_language =
     (if source_language \<noteq> []
      then ''You are a professional translator. Translate the following text from ''
           @ source_language @ '' to '' @ target_language
           @ ''. Maintain the original meaning, tone, and formatting. Return only the translated text without any explanations or additional text.''
      else ''You are a professional translator. Detect the language of the following text and translate it to ''
           @ target_language
           @ ''. Maintain the original meaning, tone, and formatting. Return only the translated text without any explanations or additional text.'')"

record translation =
  translated_content :: string
  source_language :: string
  target_language :: string

text \<open>
  \<open>translate_content\<close>, called with a source language that is a string (the caller
  passes the detected language): an empty one is falsy, so the prompt asks to detect
  the language and the source language is detected afterwards.
\<close>

definition translate_content ::
  "'w services \<Rightarrow> string \<Rightarrow> string \<Rightarrow> string \<Rightarrow> 'w st \<Rightarrow> (exn + translation) \<times> 'w st" where
  "translate_content sv content target src s =
     (let request =
        \<lparr>llm_model = ''gpt-3.5-turbo'',
         system_content = translate_system_prompt src target,
         user_content = content, max_tokens = 2000\<rparr>
      in case external (ChatCompletion request) (chat_completions_create sv request) s of
           (Inl e, s1) \<Rightarrow>
             (Inl e, log_msg ERROR ''Translation error type: {type(e)}''
                       (log_msg ERROR ''Failed to translate content: {e}'' s1))
         | (Inr translated_text, s1) \<Rightarrow>
             (case (if src = [] then detect_language sv content s1 else (src, s1)) of
                (src', s2) \<Rightarrow>
                  (Inr \<lparr>translated_content = translated_text, source_language = src',
                        target_language = target\<rparr>, s2)))"

section \<open>The answer gate (llm\_service.py, process\_query\_with\_context)\<close>

definition pure_greetings :: "string list" where
  "pure_greetings =
     [''hello'', ''hi'', ''hey'', ''greetings'',
      ''good morning'', ''good afternoon'', ''good evening'',
      ''how are you'', ''how do you do'']"

text \<open>
  The loop \<open>for greeting in pure_greetings\<close> that sets \<open>is_pure_greeting\<close> and
  breaks at the first match.
\<close>

fun greeting_loop :: "string \<Rightarrow> string list \<Rightarrow> bool" where
  "greeting_loop query_lower [] = False"
| "greeting_loop query_lower (greeting # rest) =
     (if query_lower = greeting \<or> query_lower = greeting @ ''!''
      then True else greeting_loop query_lower rest)"

definition is_pure_greeting :: "string \<Rightarrow> bool" where
  "is_pure_greeting query = greeting_loop (py_strip (py_lower query)) pure_greetings"

definition greetings :: "string \<Rightarrow> string list" where
  "greetings time_greeting =
     [time_greeting @ ''! How can I help you today?'',
      ''Hello! '' @ time_greeting @ ''! I'm here to assist you. What would you like to know?'',
      ''Hi there! '' @ time_greeting @ ''! How can I be of service today?'',
      ''Greetings! '' @ time_greeting @ ''! What can I help you with?'',
      ''Hello! '' @ time_greeting @ ''! I'm ready to help. What do you need assistance with?'']"

text \<open>
  \<open>random.choice\<close> picks one of the five templates: the index the world draws is
  brought into range.
\<close>

definition generate_greeting_response :: "'w services \<Rightarrow> string \<Rightarrow> 'w st \<Rightarrow> string \<times> 'w st" where
  "generate_greeting_response sv query s =
     (case ambient (datetime_now_hour sv) s of
        (current_hour, s1) \<Rightarrow>
          (let time_greeting =
                 (if current_hour < 12 then ''Good morning''
                  else if current_hour < 17 then ''Good afternoon''
                  else ''Good evening'')
           in case ambient (random_choice sv 5) s1 of
                (i, s2) \<Rightarrow> (greetings time_greeting ! (i mod 5), s2)))"

definition generate_no_context_response :: "string \<Rightarrow> string" where
  "generate_no_context_response query = ''No context found for your query.''"

definition meaningful_chunks_of :: "string list \<Rightarrow> string list" where
  "meaningful_chunks_of relevant_chunks =
     filter (\<lambda>chunk. length (py_strip chunk) > 20) relevant_chunks"

definition process_query_with_context ::
  "'w services \<Rightarrow> string \<Rightarrow> string list \<Rightarrow> 'w st \<Rightarrow> (exn + string) \<times> 'w st" where
  "process_query_with_context sv query relevant_chunks s =
     (if is_pure_greeting query
      then (case generate_greeting_response sv query s of (r, s1) \<Rightarrow> (Inr r, s1))
      else if relevant_chunks = []
      then (Inr (generate_no_context_response query),
            log_msg WARNING (''No relevant chunks found for query: '{query}'' @ [CHR 0x27]) s)
      else let meaningful_chunks = meaningful_chunks_of relevant_chunks in
        if meaningful_chunks = []
        then (Inr (generate_no_context_response query),
              log_msg WARNING (''No meaningful chunks found for query: '{query}'' @ [CHR 0x27]) s)
        else
          (case generate_response sv query
                  (py_join [CHR 0x0A, CHR 0x0A] meaningful_chunks) s of
             (Inl e, s1) \<Rightarrow> (Inl e, s1)
           | (Inr ai_response, s1) \<Rightarrow>
               (case detect_language sv query s1 of
                  (query_language, s2) \<Rightarrow>
                    if py_lower query_language \<noteq> ''english'' \<and> py_lower query_language \<noteq> ''en''
                    then (case translate_content sv ai_response ''English'' query_language s2 of
                            (Inl e, s3) \<Rightarrow>
                              (Inr ai_response,
                               log_msg ERROR ''Failed to translate AI response to English: {e}. Returning original response.'' s3)
                          | (Inr translation_result, s3) \<Rightarrow>
                              (Inr (translated_content translation_result), s3))
                    else (Inr ai_response, s2))))"

section \<open>The HTTP endpoints (api/v1/endpoints/chat.py)\<close>

record ChatMessage =
  message :: string
  organisation_id :: int
  project_id :: int
  is_voice :: bool

record ChatResponse =
  answer :: string
  transcript :: "string option"
  audio_url :: "string option"
  resp_is_voice :: bool
  timestamp :: real

text \<open>
  \<open>ChatResponse(**kwargs)\<close>: the constructor that pydantic derives from the class.
  \<open>answer\<close> and \<open>timestamp\<close> have no default, so a dictionary without one of them
  is a validation error; \<open>transcript\<close> and \<open>audio_url\<close> default to \<open>None\<close> and
  \<open>is_voice\<close> to \<open>False\<close>; a key that names no field is ignored (pydantic's default).
  A value of another type than the field's is taken as a validation error; the two
  callers only pass values of the field's type.
\<close>

datatype pyval = PStr string | PBool bool | PFloat real | PNone

definition optional_str :: "pyval option \<Rightarrow> exn + string option" where
  "optional_str v =
     (case v of
        None \<Rightarrow> Inr None
      | Some PNone \<Rightarrow> Inr None
      | Some (PStr x) \<Rightarrow> Inr (Some x)
      | Some _ \<Rightarrow> Inl (ValidationError ''str type expected''))"

definition ChatResponse_init :: "(string \<rightharpoonup> pyval) \<Rightarrow> exn + ChatResponse" where
  "ChatResponse_init kwargs =
     (case kwargs ''answer'' of
        Some (PStr a) \<Rightarrow>
          (case optional_str (kwargs ''transcript'') of
             Inl e \<Rightarrow> Inl e
           | Inr tr \<Rightarrow>
               (case optional_str (kwargs ''audio_url'') of
                  Inl e \<Rightarrow> Inl e
                | Inr au \<Rightarrow>
                    (case (case kwargs ''is_voice'' of
                             None \<Rightarrow> Inr False
                           | Some (PBool b) \<Rightarrow> Inr b
                           | Some _ \<Rightarrow> Inl (ValidationError ''bool type expected'')) of
                       Inl e \<Rightarrow> Inl e
                     | Inr iv \<Rightarrow>
                         (case kwargs ''timestamp'' of
                            Some (PFloat t) \<Rightarrow>
                              Inr \<lparr>answer = a, transcript = tr, audio_url = au,
                                   resp_is_voice = iv, timestamp = t\<rparr>
                          | _ \<Rightarrow> Inl (ValidationError ''timestamp: field required'')))))
      | _ \<Rightarrow> Inl (ValidationError ''answer: field required''))"

text \<open>
  The three steps that every entry path runs with the same text: embed the query, take
  the first vector, query the store with \<open>limit=5\<close>, and extract the chunk texts.
\<close>

definition retrieve_relevant_chunks ::
  "'w services \<Rightarrow> settings \<Rightarrow> string \<Rightarrow> int \<Rightarrow> int \<Rightarrow> 'w st
     \<Rightarrow> (exn + string list) \<times> 'w st" where
  "retrieve_relevant_chunks sv cfg user_text org proj s =
     (case get_embeddings sv cfg [user_text] s of
        (Inl e, s1) \<Rightarrow> (Inl e, s1)
      | (Inr query_embeddings, s1) \<Rightarrow>
          (case query_embeddings of
             [] \<Rightarrow> (Inl IndexError, s1)
           | query_vector # _ \<Rightarrow>
               (case query_vectors sv cfg query_vector org proj 5 s1 of
                  (Inl e, s2) \<Rightarrow> (Inl e, s2)
                | (Inr vector_results, s2) \<Rightarrow>
                    (Inr (extract_relevant_chunks vector_results), s2))))"

text \<open>The \<open>try\<close> block of \<open>send_message\<close>, then the function with its handler.\<close>

definition send_message_try ::
  "'w services \<Rightarrow> settings \<Rightarrow> ChatMessage \<Rightarrow> 'w st \<Rightarrow> (exn + ChatResponse) \<times> 'w st" where
  "send_message_try sv cfg chat_message s =
     (case retrieve_relevant_chunks sv cfg (message chat_message)
             (organisation_id chat_message) (project_id chat_message) s of
        (Inl e, s1) \<Rightarrow> (Inl e, s1)
      | (Inr relevant_chunks, s1) \<Rightarrow>
          (case process_query_with_context sv (message chat_message) relevant_chunks s1 of
             (Inl e, s2) \<Rightarrow> (Inl e, s2)
           | (Inr ai_response, s2) \<Rightarrow>
               (case ambient (time_time sv) s2 of
                  (now, s3) \<Rightarrow>
                    (ChatResponse_init
                       [''response'' \<mapsto> PStr ai_response,
                        ''is_voice'' \<mapsto> PBool (is_voice chat_message),
                        ''timestamp'' \<mapsto> PFloat now], s3))))"

definition send_message ::
  "'w services \<Rightarrow> settings \<Rightarrow> ChatMessage \<Rightarrow> 'w st \<Rightarrow> (exn + ChatResponse) \<times> 'w st" where
  "send_message sv cfg chat_message s =
     (case send_message_try sv cfg chat_message s of
        (Inl e, s1) \<Rightarrow>
          (Inl (HTTPException 500 ''Failed to process message''),
           log_msg ERROR ''Error processing chat message: {e}'' s1)
      | (Inr r, s1) \<Rightarrow> (Inr r, s1))"

text \<open>
  The audio service (audio\_service.py). Writing and removing the temporary files is not
  modelled; \<open>create_temp_audio_file\<close> draws a UUID for the file name.
\<close>

definition transcribe_audio :: "'w services \<Rightarrow> string \<Rightarrow> 'w st \<Rightarrow> (exn + string) \<times> 'w st" where
  "transcribe_audio sv audio s =
     (case external (WhisperTranscribe audio) (transcriptions_create sv audio) s of
        (Inl e, s1) \<Rightarrow> (Inl e, log_msg ERROR ''Failed to transcribe audio: {e}'' s1)
      | (Inr tr, s1) \<Rightarrow> (Inr (py_strip tr), s1))"

definition synthesize_speech :: "'w services \<Rightarrow> string \<Rightarrow> 'w st \<Rightarrow> (exn + unit) \<times> 'w st" where
  "synthesize_speech sv txt s =
     (case external (SpeechCreate txt) (speech_create sv txt) s of
        (Inl e, s1) \<Rightarrow> (Inl e, log_msg ERROR ''Failed to synthesize speech: {e}'' s1)
      | (Inr u, s1) \<Rightarrow> (Inr u, s1))"

definition truthy :: "string option \<Rightarrow> bool" where
  "truthy t = (t \<noteq> None \<and> t \<noteq> Some [])"

text \<open>
  The \<open>try\<close> block of \<open>chat\<close>. \<open>text_arg\<close> is the form field \<open>text\<close> and
  \<open>audio\<close> the content of the uploaded file, each \<open>None\<close> when absent.
\<close>

definition chat_try ::
  "'w services \<Rightarrow> settings \<Rightarrow> string option \<Rightarrow> string option \<Rightarrow> int \<Rightarrow> int \<Rightarrow> 'w st
     \<Rightarrow> (exn + ChatResponse) \<times> 'w st" where
  "chat_try sv cfg text_arg audio org proj s =
     (if \<not> truthy text_arg \<and> audio = None
      then (Inl (HTTPException 400 ''Either text or audio must be provided''), s)
      else if truthy text_arg \<and> audio \<noteq> None
      then (Inl (HTTPException 400 ''Provide either text or audio, not both''), s)
      else
        (case (case audio of
                 Some content \<Rightarrow>
                   (case ambient (uuid4 sv) s of
                      (u, s0) \<Rightarrow>
                        (case transcribe_audio sv content s0 of
                           (Inl e, s1) \<Rightarrow> (Inl e, s1)
                         | (Inr tr, s1) \<Rightarrow> (Inr (tr, Some tr), s1)))
               | None \<Rightarrow>
                   (case text_arg of
                      None \<Rightarrow> (Inl AttributeError, s)
                    | Some t \<Rightarrow> (Inr (py_strip t, None), s))) of
           (Inl e, s1) \<Rightarrow> (Inl e, s1)
         | (Inr (user_text, transcript_opt), s1) \<Rightarrow>
             if user_text = []
             then (Inl (HTTPException 400 ''No text content found''), s1)
             else
               (case retrieve_relevant_chunks sv cfg user_text org proj s1 of
                  (Inl e, s2) \<Rightarrow> (Inl e, s2)
                | (Inr relevant_chunks, s2) \<Rightarrow>
                    (case process_query_with_context sv user_text relevant_chunks s2 of
                       (Inl e, s3) \<Rightarrow> (Inl e, s3)
                     | (Inr ai_response, s3) \<Rightarrow>
                         (case ambient (time_time sv) s3 of
                            (now, s4) \<Rightarrow>
                              (let response_data =
                                     [''answer'' \<mapsto> PStr ai_response,
                                      ''transcript'' \<mapsto>
                                         (case transcript_opt of None \<Rightarrow> PNone | Some tr \<Rightarrow> PStr tr),
                                      ''is_voice'' \<mapsto> PBool (audio \<noteq> None),
                                      ''timestamp'' \<mapsto> PFloat now]
                               in if audio \<noteq> None
                                  then (case ambient (uuid4 sv) s4 of
                                          (u, s5) \<Rightarrow>
                                            (case synthesize_speech sv ai_response s5 of
                                               (Inl e, s6) \<Rightarrow>
                                                 (ChatResponse_init response_data,
                                                  log_msg ERROR ''Failed to generate audio response: {e}'' s6)
                                             | (Inr _, s6) \<Rightarrow>
                                                 (ChatResponse_init
                                                    (response_data(''audio_url'' \<mapsto>
                                                       PStr (''/static/audio/audio_'' @ u @ ''.mp3''))),
                                                  s6)))
                                  else (ChatResponse_init response_data, s4)))))))"

definition chat ::
  "'w services \<Rightarrow> settings \<Rightarrow> string option \<Rightarrow> string option \<Rightarrow> int \<Rightarrow> int \<Rightarrow> 'w st
     \<Rightarrow> (exn + ChatResponse) \<times> 'w st" where
  "chat sv cfg text_arg audio org proj s =
     (case chat_try sv cfg text_arg audio org proj s of
        (Inl (HTTPException code detail), s1) \<Rightarrow> (Inl (HTTPException code detail), s1)
      | (Inl e, s1) \<Rightarrow>
          (Inl (HTTPException 500 ''Failed to process chat request''),
           log_msg ERROR ''Error processing chat request: {e}'' s1)
      | (Inr r, s1) \<Rightarrow> (Inr r, s1))"

section \<open>The realtime channel (main.py)\<close>

text \<open>
  The \<open>ConnectionManager\<close>. Its list \<open>active_connections\<close> is a field of the state.
  \<open>list.remove\<close> removes the first occurrence.
\<close>

definition connect :: "'w services \<Rightarrow> websocket \<Rightarrow> 'w st \<Rightarrow> (exn + unit) \<times> 'w st" where
  "connect sv ws s =
     (case external (Accept ws) (accept sv ws) s of
        (Inl e, s1) \<Rightarrow> (Inl e, s1)
      | (Inr u, s1) \<Rightarrow>
          (Inr (), s1\<lparr>active_connections := active_connections s1 @ [ws]\<rparr>))"


definition send_personal_message :: "'w services \<Rightarrow> frame \<Rightarrow> websocket \<Rightarrow> 'w st \<Rightarrow> 'w st" where
  "send_personal_message sv msg ws s =
     (case external (SendText ws msg) (send_text sv ws msg) s of
        (Inl e, s1) \<Rightarrow> log_msg ERROR ''Error sending personal message: {e}'' s1
      | (Inr u, s1) \<Rightarrow> s1)"



text \<open>
  A \<open>user_message\<close> frame, after \<open>json.loads\<close>: each key may be absent, and
  \<open>message.get\<close> supplies the default.
\<close>

record user_message =
  um_text :: "string option"
  um_isVoice :: "bool option"
  um_organisation_id :: "int option"
  um_project_id :: "int option"

definition no_information_reply :: string where
  "no_information_reply =
     ''I don't have enough information to answer your question. Please try rephrasing or ask about something else.''"

text \<open>The \<open>try\<close> block of \<open>handle_user_message\<close>, then the function with its handler.\<close>

definition handle_user_message_try ::
  "'w services \<Rightarrow> settings \<Rightarrow> websocket \<Rightarrow> user_message \<Rightarrow> 'w st \<Rightarrow> (exn + unit) \<times> 'w st" where
  "handle_user_message_try sv cfg ws msg s =
     (let user_text = (case um_text msg of None \<Rightarrow> [] | Some t \<Rightarrow> t);
          isVoice = (case um_isVoice msg of None \<Rightarrow> False | Some b \<Rightarrow> b);
          org = (case um_organisation_id msg of None \<Rightarrow> 1 | Some i \<Rightarrow> i);
          proj = (case um_project_id msg of None \<Rightarrow> 1 | Some i \<Rightarrow> i)
      in if py_strip user_text = []
         then (Inr (), send_personal_message sv (ErrorFrame ''Empty message received'') ws s)
         else
           (case retrieve_relevant_chunks sv cfg user_text org proj
                   (send_personal_message sv (TypingFrame True) ws s) of
              (Inl e, s1) \<Rightarrow> (Inl e, s1)
            | (Inr relevant_chunks, s1) \<Rightarrow>
                (case (if relevant_chunks \<noteq> []
                       then process_query_with_context sv user_text relevant_chunks s1
                       else (Inr no_information_reply, s1)) of
                   (Inl e, s2) \<Rightarrow> (Inl e, s2)
                 | (Inr ai_response, s2) \<Rightarrow>
                     (case ambient (time_time sv) s2 of
                        (now, s3) \<Rightarrow>
                          (Inr (),
                           send_personal_message sv
                             (BotResponseFrame ai_response isVoice now) ws s3)))))"

definition handle_user_message ::
  "'w services \<Rightarrow> settings \<Rightarrow> websocket \<Rightarrow> user_message \<Rightarrow> 'w st \<Rightarrow> 'w st" where
  "handle_user_message sv cfg ws msg s =
     (case handle_user_message_try sv cfg ws msg s of
        (Inl e, s1) \<Rightarrow>
          send_personal_message sv (ErrorFrame ''Failed to process message'') ws
            (log_msg ERROR ''Error processing user message: {e}'' s1)
      | (Inr u, s1) \<Rightarrow> s1)"

section \<open>Concrete services for the instances\<close>

text \<open>
  A world without state, for the concrete instances of the theorems: Bedrock answers
  every text with a vector of four components, the store answers every query with the
  given vectors, the chat model is the given function, a send to connection 1 fails (a
  half-closed socket) and every other call succeeds.
\<close>

definition stub_services ::
  "vector_entry list \<Rightarrow> (llm_request \<Rightarrow> exn + string) \<Rightarrow> unit services" where
  "stub_services vs llm =
     \<lparr>invoke_model = (\<lambda>m t w. (Inr \<lparr>embedding = Some [1, 2, 3, 4]\<rparr>, w)),
      s3_query_vectors = (\<lambda>r w. (Inr \<lparr>vectors = Some vs\<rparr>, w)),
      chat_completions_create = (\<lambda>r w. (llm r, w)),
      transcriptions_create = (\<lambda>a w. (Inr a, w)),
      speech_create = (\<lambda>t w. (Inr (), w)),
      accept = (\<lambda>c w. (Inr (), w)),
      send_text = (\<lambda>c f w. (if c = 1 then Inl (UpstreamError ''connection closed'') else Inr (), w)),
      datetime_now_hour = (\<lambda>w. (9, w)),
      random_choice = (\<lambda>n w. (0, w)),
      time_time = (\<lambda>w. (0, w)),
      uuid4 = (\<lambda>w. (''0000'', w))\<rparr>"

definition stub_chunk :: "int \<Rightarrow> int \<Rightarrow> string \<Rightarrow> vector_entry" where
  "stub_chunk org proj c =
     \<lparr>vec_key = ''k'',
      vec_metadata = Some \<lparr>md_organisation_id = Some org, md_project_id = Some proj,
                           md_chunk_text = Some c\<rparr>\<rparr>"

definition stub_state :: "websocket list \<Rightarrow> unit st" where
  "stub_state conns = \<lparr>world = (), calls = [], logs = [], active_connections = conns\<rparr>"

text \<open>A chat model that names the language of every text as English and echoes the rest.\<close>

definition english_llm :: "llm_request \<Rightarrow> exn + string" where
  "english_llm r =
     (if system_content r = detect_system_prompt then Inr ''English''
      else Inr ''You can return items within 30 days.'')"

text \<open>
  A chat model that answers by the kind of the request, which its \<open>max_tokens\<close>
  tells: 50 for the detection of a language, 2000 for a translation, and 500 for the
  generation of an answer.
\<close>

definition scripted_llm ::
  "(exn + string) \<Rightarrow> (exn + string) \<Rightarrow> (exn + string) \<Rightarrow> llm_request \<Rightarrow> exn + string" where
  "scripted_llm generated detected translated r =
     (if max_tokens r = 50 then detected
      else if max_tokens r = 2000 then translated
      else generated)"

section \<open>Facts about the string primitives\<close>

lemma py_join_append:
  "xs \<noteq> [] \<Longrightarrow> ys \<noteq> [] \<Longrightarrow> py_join sep (xs @ ys) = py_join sep xs @ sep @ py_join sep ys"
proof (induction sep xs rule: py_join.induct)
  case (1 sep)
  then show ?case by simp
next
  case (2 sep x)
  then show ?case by (cases ys) simp_all
next
  case (3 sep x y zs)
  then show ?case by simp
qed

lemma py_join_map_join:
  "\<forall>g\<in>set gs. g \<noteq> [] \<Longrightarrow> py_join sep (map (py_join sep) gs) = py_join sep (concat gs)"
proof (induction gs)
  case Nil
  then show ?case by simp
next
  case (Cons g gs)
  show ?case
  proof (cases gs)
    case Nil
    then show ?thesis by simp
  next
    case (Cons h hs)
    with Cons.prems have ne: "g \<noteq> []" "concat gs \<noteq> []" by auto
    have "py_join sep (map (py_join sep) (g # gs)) = py_join sep g @ sep @ py_join sep (map (py_join sep) gs)"
      using Cons by simp
    also have "\<dots> = py_join sep g @ sep @ py_join sep (concat gs)"
      using Cons.IH Cons.prems by simp
    also have "\<dots> = py_join sep (g @ concat gs)"
      using ne by (simp add: py_join_append)
    finally show ?thesis by simp
  qed
qed

lemma py_split_from_word:
  "\<forall>c\<in>set w. \<not> py_isspace c \<Longrightarrow> py_split_from cur (w @ rest) = py_split_from (cur @ w) rest"
  by (induction w arbitrary: cur) simp_all

lemma py_split_join:
  "\<forall>w\<in>set ws. w \<noteq> [] \<and> (\<forall>c\<in>set w. \<not> py_isspace c) \<Longrightarrow> py_split (py_join '' '' ws) = ws"
proof (induction ws)
  case Nil
  then show ?case by (simp add: py_split_def)
next
  case (Cons x ws)
  then have x: "x \<noteq> []" "\<forall>c\<in>set x. \<not> py_isspace c" by auto
  show ?case
  proof (cases ws)
    case Nil
    then show ?thesis using x py_split_from_word[of x "[]" "[]"] by (simp add: py_split_def)
  next
    case (Cons y ys)
    have sp: "py_isspace CHR '' ''" by (simp add: py_isspace_def)
    have "py_split (py_join '' '' (x # ws)) = py_split_from [] (x @ CHR '' '' # py_join '' '' ws)"
      using Cons by (simp add: py_split_def)
    also have "\<dots> = py_split_from x (CHR '' '' # py_join '' '' ws)"
      using py_split_from_word[OF x(2), of "[]"] by simp
    also have "\<dots> = x # py_split (py_join '' '' ws)"
      using x(1) sp by (simp add: py_split_def)
    also have "\<dots> = x # ws"
      using Cons.IH Cons.prems by simp
    finally show ?thesis .
  qed
qed

lemma py_split_from_proper:
  "\<forall>c\<in>set cur. \<not> py_isspace c \<Longrightarrow>
   \<forall>w\<in>set (py_split_from cur s). w \<noteq> [] \<and> (\<forall>c\<in>set w. \<not> py_isspace c)"
proof (induction s arbitrary: cur)
  case Nil
  then show ?case by simp
next
  case (Cons a s)
  show ?case
  proof (cases "py_isspace a")
    case True
    have "\<forall>w\<in>set (py_split_from [] s). w \<noteq> [] \<and> (\<forall>c\<in>set w. \<not> py_isspace c)"
      by (rule Cons.IH) simp
    with True Cons.prems show ?thesis by simp
  next
    case False
    with Cons.prems have "\<forall>c\<in>set (cur @ [a]). \<not> py_isspace c" by simp
    from Cons.IH[OF this] False show ?thesis by simp
  qed
qed

lemma py_split_proper:
  "\<forall>w\<in>set (py_split s). w \<noteq> [] \<and> (\<forall>c\<in>set w. \<not> py_isspace c)"
  unfolding py_split_def by (rule py_split_from_proper) simp

lemma length_py_join_snoc:
  "xs \<noteq> [] \<Longrightarrow> length (py_join sep (xs @ [w])) = length (py_join sep xs) + length sep + length w"
  by (simp add: py_join_append)

section \<open>Chunking: the loop invariant\<close>

lemma chunk_loop_groups:
  assumes "current_chunk = [] \<longrightarrow> 0 \<le> current_size"
    and "current_chunk \<noteq> [] \<longrightarrow>
           int (length (py_join '' '' current_chunk)) \<le> current_size \<and>
           (current_size \<le> chunk_size \<or> length current_chunk = 1)"
  shows "\<exists>gs.
           (case chunk_loop chunk_size ws (map (py_join '' '') gs0) current_chunk current_size of
              (chunks, cur, sz) \<Rightarrow> if cur \<noteq> [] then chunks @ [py_join '' '' cur] else chunks)
             = map (py_join '' '') (gs0 @ gs) \<and>
           (\<forall>g\<in>set gs. g \<noteq> []) \<and> concat gs = current_chunk @ ws \<and>
           (\<forall>g\<in>set gs. int (length (py_join '' '' g)) \<le> chunk_size \<or> length g = 1)"
  using assms
proof (induction ws arbitrary: gs0 current_chunk current_size)
  case Nil
  show ?case
  proof (cases "current_chunk = []")
    case True
    then show ?thesis by (intro exI[of _ "[]"]) simp
  next
    case False
    with Nil show ?thesis by (intro exI[of _ "[current_chunk]"]) auto
  qed
next
  case (Cons word ws)
  show ?case
  proof (cases "current_size + int (length word) + 1 > chunk_size \<and> current_chunk \<noteq> []")
    case True
    have "\<exists>gs. (case chunk_loop chunk_size ws (map (py_join '' '') (gs0 @ [current_chunk])) [word] (int (length word)) of
              (chunks, cur, sz) \<Rightarrow> if cur \<noteq> [] then chunks @ [py_join '' '' cur] else chunks)
             = map (py_join '' '') ((gs0 @ [current_chunk]) @ gs) \<and>
           (\<forall>g\<in>set gs. g \<noteq> []) \<and> concat gs = [word] @ ws \<and>
           (\<forall>g\<in>set gs. int (length (py_join '' '' g)) \<le> chunk_size \<or> length g = 1)"
      by (rule Cons.IH) simp_all
    then obtain gs where gs:
      "(case chunk_loop chunk_size ws (map (py_join '' '') (gs0 @ [current_chunk])) [word] (int (length word)) of
              (chunks, cur, sz) \<Rightarrow> if cur \<noteq> [] then chunks @ [py_join '' '' cur] else chunks)
             = map (py_join '' '') ((gs0 @ [current_chunk]) @ gs)"
      "\<forall>g\<in>set gs. g \<noteq> []" "concat gs = [word] @ ws"
      "\<forall>g\<in>set gs. int (length (py_join '' '' g)) \<le> chunk_size \<or> length g = 1"
      by blast
    from True Cons.prems(2) have b: "int (length (py_join '' '' current_chunk)) \<le> chunk_size \<or> length current_chunk = 1"
      by auto
    have step: "chunk_loop chunk_size (word # ws) (map (py_join '' '') gs0) current_chunk current_size =
        chunk_loop chunk_size ws (map (py_join '' '') (gs0 @ [current_chunk])) [word] (int (length word))"
      using True by simp
    show ?thesis
      unfolding step using True gs b by (intro exI[of _ "current_chunk # gs"]) simp
  next
    case False
    have len: "current_chunk \<noteq> [] \<Longrightarrow>
        int (length (py_join '' '' (current_chunk @ [word]))) =
        int (length (py_join '' '' current_chunk)) + 1 + int (length word)"
      by (simp add: length_py_join_snoc)
    have "\<exists>gs. (case chunk_loop chunk_size ws (map (py_join '' '') gs0) (current_chunk @ [word]) (current_size + int (length word) + 1) of
              (chunks, cur, sz) \<Rightarrow> if cur \<noteq> [] then chunks @ [py_join '' '' cur] else chunks)
             = map (py_join '' '') (gs0 @ gs) \<and>
           (\<forall>g\<in>set gs. g \<noteq> []) \<and> concat gs = (current_chunk @ [word]) @ ws \<and>
           (\<forall>g\<in>set gs. int (length (py_join '' '' g)) \<le> chunk_size \<or> length g = 1)"
    proof (rule Cons.IH)
      show "current_chunk @ [word] = [] \<longrightarrow> 0 \<le> current_size + int (length word) + 1" by simp
      show "current_chunk @ [word] \<noteq> [] \<longrightarrow>
        int (length (py_join '' '' (current_chunk @ [word]))) \<le> current_size + int (length word) + 1 \<and>
        (current_size + int (length word) + 1 \<le> chunk_size \<or> length (current_chunk @ [word]) = 1)"
      proof (cases "current_chunk = []")
        case True
        with Cons.prems(1) show ?thesis by simp
      next
        case ne: False
        with False have "current_size + int (length word) + 1 \<le> chunk_size" by simp
        moreover from ne Cons.prems(2) len
        have "int (length (py_join '' '' (current_chunk @ [word]))) \<le> current_size + int (length word) + 1"
          by simp
        ultimately show ?thesis by simp
      qed
    qed
    moreover have "chunk_loop chunk_size (word # ws) (map (py_join '' '') gs0) current_chunk current_size =
        chunk_loop chunk_size ws (map (py_join '' '') gs0) (current_chunk @ [word]) (current_size + int (length word) + 1)"
      by (simp only: chunk_loop.simps False if_False)
    ultimately show ?thesis by simp
  qed
qed

section \<open>Chunking: the properties of the result\<close>

lemma chunk_text_groups:
  "\<exists>gs. chunk_text text chunk_size = map (py_join '' '') gs \<and>
     (\<forall>g\<in>set gs. g \<noteq> []) \<and> concat gs = py_split text \<and>
     (\<forall>g\<in>set gs. int (length (py_join '' '' g)) \<le> chunk_size \<or> length g = 1)"
  using chunk_loop_groups[of "[]" 0 chunk_size "py_split text" "[]"]
  by (simp add: chunk_text_def)

lemma chunk_text_empty: "chunk_text [] chunk_size = []"
  by (simp add: chunk_text_def py_split_def)

text \<open>
  Claim C9. The chunks of \<open>chunk_text\<close>, joined by single spaces, are the words of the
  input joined by single spaces; the empty string has no chunk; the words of the chunks,
  read in order, are the words of the input, so no word is split or cut; and for a
  chunk size that is not negative, no chunk is longer than the chunk size plus the
  length of its last word.
\<close>

theorem chunk_text_rejoin_words_bound:
  "py_join '' '' (chunk_text text chunk_size) = py_join '' '' (py_split text) \<and>
   chunk_text [] chunk_size = [] \<and>
   concat (map py_split (chunk_text text chunk_size)) = py_split text \<and>
   (0 \<le> chunk_size \<longrightarrow>
      (\<forall>c\<in>set (chunk_text text chunk_size).
         int (length c) \<le> chunk_size + int (length (last (py_split c)))))"
proof -
  obtain gs where gs: "chunk_text text chunk_size = map (py_join '' '') gs"
    "\<forall>g\<in>set gs. g \<noteq> []" "concat gs = py_split text"
    "\<forall>g\<in>set gs. int (length (py_join '' '' g)) \<le> chunk_size \<or> length g = 1"
    using chunk_text_groups by blast
  have proper: "\<forall>g\<in>set gs. \<forall>w\<in>set g. w \<noteq> [] \<and> (\<forall>c\<in>set w. \<not> py_isspace c)"
  proof (intro ballI)
    fix g w assume "g \<in> set gs" "w \<in> set g"
    then have "w \<in> set (concat gs)" by auto
    then show "w \<noteq> [] \<and> (\<forall>c\<in>set w. \<not> py_isspace c)"
      using py_split_proper[of "text"] gs(3) by simp
  qed
  have unsplit: "\<forall>g\<in>set gs. py_split (py_join '' '' g) = g"
    using proper by (auto intro: py_split_join)
  have rejoin: "py_join '' '' (chunk_text text chunk_size) = py_join '' '' (py_split text)"
    using gs(1,2,3) py_join_map_join[of gs "'' ''"] by simp
  have "map py_split (chunk_text text chunk_size) = gs"
    using gs(1) unsplit by (simp add: map_idI)
  then have words: "concat (map py_split (chunk_text text chunk_size)) = py_split text"
    using gs(3) by simp
  have bound: "\<forall>c\<in>set (chunk_text text chunk_size).
         int (length c) \<le> chunk_size + int (length (last (py_split c)))" if nn: "0 \<le> chunk_size"
  proof
    fix c assume "c \<in> set (chunk_text text chunk_size)"
    then obtain g where g: "g \<in> set gs" "c = py_join '' '' g" using gs(1) by auto
    then have sp: "py_split c = g" using unsplit by simp
    from g gs(4) consider "int (length c) \<le> chunk_size" | "length g = 1" by auto
    then show "int (length c) \<le> chunk_size + int (length (last (py_split c)))"
    proof cases
      case 1
      then show ?thesis by simp
    next
      case 2
      then obtain w where "g = [w]" by (cases g) auto
      then show ?thesis using g(2) sp nn by simp
    qed
  qed
  show ?thesis using rejoin words bound chunk_text_empty by blast
qed

theorem chunk_text_rejoin_words_bound_witness:
  "py_join '' '' (chunk_text ''  hello   world foo bar baz '' 9) = py_join '' '' (py_split ''  hello   world foo bar baz '') \<and>
   chunk_text ''  hello   world foo bar baz '' 9 = [''hello'', ''world foo'', ''bar baz''] \<and>
   concat (map py_split (chunk_text ''  hello   world foo bar baz '' 9)) = py_split ''  hello   world foo bar baz '' \<and>
   int (length ''world foo'') \<le> 9 + int (length (last (py_split ''world foo'')))"
proof -
  have v: "chunk_text ''  hello   world foo bar baz '' 9 = [''hello'', ''world foo'', ''bar baz'']"
    by code_simp
  have nn: "(0::int) \<le> 9" by simp
  have m: "''world foo'' \<in> set (chunk_text ''  hello   world foo bar baz '' 9)"
    unfolding v by simp
  from chunk_text_rejoin_words_bound[of "''  hello   world foo bar baz ''" 9] nn m v
  show ?thesis by blast
qed

section \<open>The answer gate: the greeting test\<close>

lemma of_char_bound: "(of_char c :: nat) < 256"
  by (rule nat_of_char_less_256)

lemma py_isspace_lower_char: "py_isspace (py_lower_char c) = py_isspace c"
proof -
  let ?n = "of_char c :: nat"
  have b: "?n < 256" by (rule of_char_bound)
  show ?thesis
  proof (cases "(65 \<le> ?n \<and> ?n \<le> 90) \<or> (192 \<le> ?n \<and> ?n \<le> 222 \<and> ?n \<noteq> 215)")
    case True
    then have m: "(?n + 32) mod 256 = ?n + 32" by auto
    have l: "py_lower_char c = char_of (?n + 32)"
      using True by (simp add: py_lower_char_def Let_def)
    have "of_char (py_lower_char c) = ?n + 32"
      unfolding l using m by (simp add: of_char_of)
    then show ?thesis using True by (auto simp: py_isspace_def Let_def)
  next
    case False
    have "py_lower_char c = c"
      unfolding py_lower_char_def Let_def using False by (rule if_not_P)
    then show ?thesis by simp
  qed
qed

lemma py_lower_strip: "py_lower (py_strip s) = py_strip (py_lower s)"
proof -
  have d: "\<And>xs. dropWhile py_isspace (map py_lower_char xs) = map py_lower_char (dropWhile py_isspace xs)"
    by (simp add: dropWhile_map comp_def py_isspace_lower_char)
  show ?thesis
    by (simp add: py_lower_def py_strip_def rev_map d)
qed

lemma greeting_loop_iff:
  "greeting_loop q gs = (q \<in> set gs \<union> (\<lambda>g. g @ ''!'') ` set gs)"
  by (induction gs) auto

section \<open>The embedding client: the dimension of the result\<close>

lemma fit_dimension_eq:
  assumes "0 \<le> VECTOR_DIMENSION cfg"
  shows "fit_dimension cfg e =
           take (nat (VECTOR_DIMENSION cfg)) e @
           replicate (nat (VECTOR_DIMENSION cfg) - length e) 0"
proof -
  consider "int (length e) > VECTOR_DIMENSION cfg" | "int (length e) < VECTOR_DIMENSION cfg"
    | "int (length e) = VECTOR_DIMENSION cfg" by linarith
  then show ?thesis
  proof cases
    case 1
    then have "nat (VECTOR_DIMENSION cfg) - length e = 0" by linarith
    with 1 assms show ?thesis by (simp add: fit_dimension_def py_slice_to_def)
  next
    case 2
    then have "nat (VECTOR_DIMENSION cfg - int (length e)) = nat (VECTOR_DIMENSION cfg) - length e"
      by linarith
    moreover from 2 have "length e \<le> nat (VECTOR_DIMENSION cfg)" by linarith
    ultimately show ?thesis using 2 by (simp add: fit_dimension_def)
  next
    case 3
    then have "nat (VECTOR_DIMENSION cfg) = length e" by linarith
    with 3 show ?thesis by (simp add: fit_dimension_def)
  qed
qed

lemma fit_dimension_length:
  assumes "0 \<le> VECTOR_DIMENSION cfg"
  shows "int (length (fit_dimension cfg e)) = VECTOR_DIMENSION cfg"
  using assms by (simp add: fit_dimension_eq[OF assms] min_def)

lemma get_embeddings_loop_result:
  "get_embeddings_loop sv cfg texts acc s = (Inr vs, s') \<Longrightarrow>
   \<exists>es. list_all2 (\<lambda>t e. \<exists>w r. fst (invoke_model sv (EMBEDDING_MODEL_ID cfg) t w) = Inr r \<and>
                              embedding r = Some e) texts es \<and>
        vs = acc @ map (fit_dimension cfg) es \<and>
        calls s' = calls s @ map (BedrockInvoke (EMBEDDING_MODEL_ID cfg)) texts"
proof (induction texts arbitrary: acc s)
  case Nil
  then show ?case by simp
next
  case (Cons t texts)
  obtain r w where ext: "invoke_model sv (EMBEDDING_MODEL_ID cfg) t (world s) = (r, w)"
    by (cases "invoke_model sv (EMBEDDING_MODEL_ID cfg) t (world s)")
  let ?s1 = "s\<lparr>world := w, calls := calls s @ [BedrockInvoke (EMBEDDING_MODEL_ID cfg) t]\<rparr>"
  from Cons.prems ext obtain body e where
    r: "r = Inr body" and e: "embedding body = Some e" and
    rest: "get_embeddings_loop sv cfg texts (acc @ [fit_dimension cfg e]) ?s1 = (Inr vs, s')"
    by (auto simp: external_def split: sum.splits option.splits)
  from Cons.IH[OF rest] obtain es where es:
    "list_all2 (\<lambda>t e. \<exists>w r. fst (invoke_model sv (EMBEDDING_MODEL_ID cfg) t w) = Inr r \<and>
                              embedding r = Some e) texts es"
    "vs = (acc @ [fit_dimension cfg e]) @ map (fit_dimension cfg) es"
    "calls s' = calls ?s1 @ map (BedrockInvoke (EMBEDDING_MODEL_ID cfg)) texts"
    by blast
  have hd: "\<exists>w r. fst (invoke_model sv (EMBEDDING_MODEL_ID cfg) t w) = Inr r \<and> embedding r = Some e"
    using ext r e by (intro exI[of _ "world s"] exI[of _ body]) simp
  show ?case
    using es hd by (intro exI[of _ "e # es"]) simp
qed

lemma get_embeddings_loop_total:
  "\<forall>t\<in>set texts. \<forall>w. \<exists>r e. fst (invoke_model sv (EMBEDDING_MODEL_ID cfg) t w) = Inr r \<and>
                             embedding r = Some e \<Longrightarrow>
   \<exists>vs s'. get_embeddings_loop sv cfg texts acc s = (Inr vs, s')"
proof (induction texts arbitrary: acc s)
  case Nil
  then show ?case by simp
next
  case (Cons t texts)
  from Cons.prems obtain r e where
    r: "fst (invoke_model sv (EMBEDDING_MODEL_ID cfg) t (world s)) = Inr r" "embedding r = Some e"
    by (metis list.set_intros(1))
  obtain w where ext: "invoke_model sv (EMBEDDING_MODEL_ID cfg) t (world s) = (Inr r, w)"
    using r(1) by (cases "invoke_model sv (EMBEDDING_MODEL_ID cfg) t (world s)") simp
  have "\<exists>vs s'. get_embeddings_loop sv cfg texts (acc @ [fit_dimension cfg e])
          (s\<lparr>world := w, calls := calls s @ [BedrockInvoke (EMBEDDING_MODEL_ID cfg) t]\<rparr>) = (Inr vs, s')"
    by (rule Cons.IH) (use Cons.prems in simp)
  then show ?case using ext r(2) by (simp add: external_def)
qed

text \<open>
  Claim C5. With a dimension setting that is not negative, a batch that
  \<open>get_embeddings\<close> returns has one vector per input text, in input order, each made
  from the upstream vector of its text by keeping the first \<open>VECTOR_DIMENSION\<close>
  components and padding with zeros at the end, so each has exactly that length; one
  upstream call is made per text, in order. When every upstream call answers with an
  embedding, the batch is returned.
\<close>

theorem get_embeddings_dimension:
  assumes "0 \<le> VECTOR_DIMENSION cfg"
  shows "(get_embeddings sv cfg texts s = (Inr vs, s') \<longrightarrow>
            length vs = length texts \<and>
            (\<forall>v\<in>set vs. int (length v) = VECTOR_DIMENSION cfg) \<and>
            (\<exists>es. list_all2 (\<lambda>t e. \<exists>w r. fst (invoke_model sv (EMBEDDING_MODEL_ID cfg) t w) = Inr r \<and>
                                        embedding r = Some e) texts es \<and>
                  vs = map (\<lambda>e. take (nat (VECTOR_DIMENSION cfg)) e @
                                 replicate (nat (VECTOR_DIMENSION cfg) - length e) 0) es) \<and>
            calls s' = calls s @ map (BedrockInvoke (EMBEDDING_MODEL_ID cfg)) texts) \<and>
         ((\<forall>t\<in>set texts. \<forall>w. \<exists>r e. fst (invoke_model sv (EMBEDDING_MODEL_ID cfg) t w) = Inr r \<and>
                                     embedding r = Some e) \<longrightarrow>
            (\<exists>vs s'. get_embeddings sv cfg texts s = (Inr vs, s')))"
proof (intro conjI impI)
  assume run: "get_embeddings sv cfg texts s = (Inr vs, s')"
  then obtain es where es:
    "list_all2 (\<lambda>t e. \<exists>w r. fst (invoke_model sv (EMBEDDING_MODEL_ID cfg) t w) = Inr r \<and>
                              embedding r = Some e) texts es"
    "vs = map (fit_dimension cfg) es"
    "calls s' = calls s @ map (BedrockInvoke (EMBEDDING_MODEL_ID cfg)) texts"
    using get_embeddings_loop_result[of sv cfg texts "[]" s vs s']
    by (auto simp: get_embeddings_def)
  show "length vs = length texts"
    using es(1,2) by (simp add: list_all2_lengthD)
  show "\<forall>v\<in>set vs. int (length v) = VECTOR_DIMENSION cfg"
    using es(2) fit_dimension_length[OF assms] by auto
  have "map (fit_dimension cfg) es =
        map (\<lambda>e. take (nat (VECTOR_DIMENSION cfg)) e @
                 replicate (nat (VECTOR_DIMENSION cfg) - length e) 0) es"
    by (simp add: fit_dimension_eq[OF assms])
  with es(1,2) show "\<exists>es. list_all2 (\<lambda>t e. \<exists>w r. fst (invoke_model sv (EMBEDDING_MODEL_ID cfg) t w) = Inr r \<and>
                                        embedding r = Some e) texts es \<and>
                  vs = map (\<lambda>e. take (nat (VECTOR_DIMENSION cfg)) e @
                                 replicate (nat (VECTOR_DIMENSION cfg) - length e) 0) es"
    by auto
  show "calls s' = calls s @ map (BedrockInvoke (EMBEDDING_MODEL_ID cfg)) texts" by (rule es(3))
next
  assume "\<forall>t\<in>set texts. \<forall>w. \<exists>r e. fst (invoke_model sv (EMBEDDING_MODEL_ID cfg) t w) = Inr r \<and>
                                     embedding r = Some e"
  then show "\<exists>vs s'. get_embeddings sv cfg texts s = (Inr vs, s')"
    unfolding get_embeddings_def by (rule get_embeddings_loop_total)
qed

theorem get_embeddings_dimension_witness:
  "fst (get_embeddings (stub_services [] english_llm) (default_settings\<lparr>VECTOR_DIMENSION := 3\<rparr>)
          [''a'', ''b''] (stub_state [])) = Inr [[1, 2, 3], [1, 2, 3]] \<and>
   fst (get_embeddings (stub_services [] english_llm) (default_settings\<lparr>VECTOR_DIMENSION := 6\<rparr>)
          [''a''] (stub_state [])) = Inr [[1, 2, 3, 4, 0, 0]] \<and>
   calls (snd (get_embeddings (stub_services [] english_llm) (default_settings\<lparr>VECTOR_DIMENSION := 3\<rparr>)
          [''a'', ''b''] (stub_state []))) =
     [BedrockInvoke ''amazon.titan-embed-text-v2:0'' ''a'',
      BedrockInvoke ''amazon.titan-embed-text-v2:0'' ''b''] \<and>
   length [[1, 2, 3], [1, 2, 3 :: real]] = length [''a'', ''b'']"
proof -
  let ?sv = "stub_services [] english_llm"
  let ?c3 = "default_settings\<lparr>VECTOR_DIMENSION := 3\<rparr>"
  let ?c6 = "default_settings\<lparr>VECTOR_DIMENSION := 6\<rparr>"
  have n3: "0 \<le> VECTOR_DIMENSION ?c3" by simp
  have r3: "fst (get_embeddings ?sv ?c3 [''a'', ''b''] (stub_state [])) = Inr [[1, 2, 3], [1, 2, 3]]"
    by (simp add: get_embeddings_def external_def stub_services_def stub_state_def
        fit_dimension_def py_slice_to_def default_settings_def)
  have r6: "fst (get_embeddings ?sv ?c6 [''a''] (stub_state [])) = Inr [[1, 2, 3, 4, 0, 0]]"
    by (simp add: get_embeddings_def external_def stub_services_def stub_state_def
        fit_dimension_def py_slice_to_def default_settings_def numeral_eq_Suc)
  have run: "get_embeddings ?sv ?c3 [''a'', ''b''] (stub_state []) =
       (Inr [[1, 2, 3], [1, 2, 3]], snd (get_embeddings ?sv ?c3 [''a'', ''b''] (stub_state [])))"
    using r3 by (metis prod.collapse)
  from get_embeddings_dimension[OF n3, of ?sv "[''a'', ''b'']" "stub_state []"
      "[[1, 2, 3], [1, 2, 3]]" "snd (get_embeddings ?sv ?c3 [''a'', ''b''] (stub_state []))"] run
  have "length [[1, 2, 3], [1, 2, 3 :: real]] = length [''a'', ''b''] \<and>
        calls (snd (get_embeddings ?sv ?c3 [''a'', ''b''] (stub_state []))) =
          calls (stub_state []) @ map (BedrockInvoke (EMBEDDING_MODEL_ID ?c3)) [''a'', ''b'']"
    by blast
  then show ?thesis using r3 r6 by (simp add: stub_state_def default_settings_def)
qed

section \<open>The answer gate: calls of the branches\<close>

lemma generate_greeting_response_calls:
  "calls (snd (generate_greeting_response sv q s)) = calls s"
  by (simp add: generate_greeting_response_def ambient_def Let_def split: prod.splits)

lemma generate_greeting_response_logs:
  "logs (snd (generate_greeting_response sv q s)) = logs s"
  by (simp add: generate_greeting_response_def ambient_def Let_def split: prod.splits)

lemma greetings_nth_mem: "greetings tg ! (i mod 5) \<in> set (greetings tg)"
  by (rule nth_mem) (simp add: greetings_def)

lemma generate_greeting_response_template:
  "fst (generate_greeting_response sv q s) \<in>
     set (greetings ''Good morning'') \<union> set (greetings ''Good afternoon'') \<union>
     set (greetings ''Good evening'')"
proof -
  obtain h s1 where h: "ambient (datetime_now_hour sv) s = (h, s1)"
    by (cases "ambient (datetime_now_hour sv) s")
  obtain i s2 where i: "ambient (random_choice sv 5) s1 = (i, s2)"
    by (cases "ambient (random_choice sv 5) s1")
  show ?thesis
    using h i greetings_nth_mem[of _ i]
    by (simp add: generate_greeting_response_def Let_def)
qed

lemma generate_response_calls:
  "calls (snd (generate_response sv q ctx s)) =
     calls s @ [ChatCompletion \<lparr>llm_model = ''gpt-3.5-turbo'',
                                system_content = generate_system_prompt ctx,
                                user_content = q, max_tokens = 500\<rparr>]"
  by (simp add: generate_response_def external_def log_msg_def Let_def split: prod.splits sum.splits)

lemma detect_language_calls:
  "\<exists>rest. calls (snd (detect_language sv t s)) = calls s @ rest"
  by (simp add: detect_language_def external_def log_msg_def Let_def split: prod.splits sum.splits)

lemma translate_content_calls:
  "\<exists>rest. calls (snd (translate_content sv c tgt src s)) = calls s @ rest"
proof -
  obtain r w where ext: "chat_completions_create sv
      \<lparr>llm_model = ''gpt-3.5-turbo'', system_content = translate_system_prompt src tgt,
       user_content = c, max_tokens = 2000\<rparr> (world s) = (r, w)"
    by (cases "chat_completions_create sv
      \<lparr>llm_model = ''gpt-3.5-turbo'', system_content = translate_system_prompt src tgt,
       user_content = c, max_tokens = 2000\<rparr> (world s)")
  show ?thesis
  proof (cases r)
    case (Inl e)
    with ext show ?thesis
      by (simp add: translate_content_def external_def log_msg_def Let_def)
  next
    case (Inr tr)
    show ?thesis
    proof (cases "src = []")
      case True
      from detect_language_calls[of sv c "s\<lparr>world := w, calls := calls s @
          [ChatCompletion \<lparr>llm_model = ''gpt-3.5-turbo'', system_content = translate_system_prompt src tgt,
             user_content = c, max_tokens = 2000\<rparr>]\<rparr>"]
      show ?thesis using ext Inr True
        by (auto simp: translate_content_def external_def Let_def split: prod.splits)
    next
      case False
      with ext Inr show ?thesis
        by (simp add: translate_content_def external_def Let_def)
    qed
  qed
qed

lemma gate_no_context:
  assumes "\<not> is_pure_greeting q" and "meaningful_chunks_of chunks = []"
  shows "fst (process_query_with_context sv q chunks s) = Inr ''No context found for your query.''"
    and "world (snd (process_query_with_context sv q chunks s)) = world s"
    and "calls (snd (process_query_with_context sv q chunks s)) = calls s"
  using assms
  by (simp_all add: process_query_with_context_def generate_no_context_response_def
      log_msg_def Let_def)

lemma gate_generate_calls:
  assumes ng: "\<not> is_pure_greeting q" and m: "meaningful_chunks_of chunks \<noteq> []"
  shows "\<exists>rest. calls (snd (process_query_with_context sv q chunks s)) =
           calls s @ ChatCompletion
             \<lparr>llm_model = ''gpt-3.5-turbo'',
              system_content = generate_system_prompt
                (py_join [CHR 0x0A, CHR 0x0A] (meaningful_chunks_of chunks)),
              user_content = q, max_tokens = 500\<rparr> # rest"
proof -
  let ?ctx = "py_join [CHR 0x0A, CHR 0x0A] (meaningful_chunks_of chunks)"
  let ?req = "ChatCompletion \<lparr>llm_model = ''gpt-3.5-turbo'',
      system_content = generate_system_prompt ?ctx, user_content = q, max_tokens = 500\<rparr>"
  from m have ne: "chunks \<noteq> []" by (auto simp: meaningful_chunks_of_def)
  obtain r s1 where g: "generate_response sv q ?ctx s = (r, s1)"
    by (cases "generate_response sv q ?ctx s")
  have c1: "calls s1 = calls s @ [?req]"
    using generate_response_calls[of sv q ?ctx s] g by simp
  show ?thesis
  proof (cases r)
    case (Inl e)
    then show ?thesis using ng ne m g c1
      by (simp add: process_query_with_context_def Let_def)
  next
    case (Inr ai)
    obtain lang s2 where d: "detect_language sv q s1 = (lang, s2)"
      by (cases "detect_language sv q s1")
    obtain r2 where c2: "calls s2 = calls s1 @ r2"
      using detect_language_calls[of sv q s1] d by auto
    have tr: ?thesis if tc: "py_lower lang \<noteq> ''english''" "py_lower lang \<noteq> ''en''"
    proof -
      obtain r3 s3 where t: "translate_content sv ai ''English'' lang s2 = (r3, s3)"
        by (cases "translate_content sv ai ''English'' lang s2")
      obtain r4 where c3: "calls s3 = calls s2 @ r4"
        using translate_content_calls[of sv ai "''English''" lang s2] t by auto
      have "calls (snd (process_query_with_context sv q chunks s)) = calls s3"
        using ng ne m g Inr d tc t
        by (cases r3) (simp_all add: process_query_with_context_def Let_def log_msg_def)
      then show ?thesis using c1 c2 c3 by simp
    qed
    show ?thesis
    proof (cases "py_lower lang = ''english''")
      case True
      then show ?thesis using ng ne m g Inr d c1 c2
        by (simp add: process_query_with_context_def Let_def)
    next
      case ne1: False
      show ?thesis
      proof (cases "py_lower lang = ''en''")
        case True
        then show ?thesis using ng ne m g Inr d c1 c2
          by (simp add: process_query_with_context_def Let_def)
      next
        case False
        with ne1 show ?thesis by (rule tr)
      qed
    qed
  qed
qed

lemma no_context_not_greeting:
  "''No context found for your query.'' \<notin>
     set (greetings ''Good morning'') \<union> set (greetings ''Good afternoon'') \<union>
     set (greetings ''Good evening'')"
  by (simp add: greetings_def)

text \<open>
  Claim C3. A query is a pure greeting exactly when, trimmed and lowercased, it is one
  of the fixed phrases or one of them followed by a single \<open>!\<close>; \<open>hello\<close> is
  one, \<open>hello there\<close> and \<open>Hello, how are you?\<close> are not. The gate takes the
  greeting branch (it returns the greeting response, having called no external
  service) exactly for the pure greetings. Every other query falls through to the
  retrieved chunks: with no meaningful chunk it gets the no-context answer and nothing
  is called, and with a meaningful chunk the completion call is made with the query
  and the joined chunks.
\<close>

theorem is_pure_greeting_exact:
  "is_pure_greeting q =
     (py_lower (py_strip q) \<in> set pure_greetings \<union> (\<lambda>g. g @ ''!'') ` set pure_greetings) \<and>
   is_pure_greeting ''hello'' \<and>
   \<not> is_pure_greeting ''hello there'' \<and>
   \<not> is_pure_greeting ''Hello, how are you?'' \<and>
   (process_query_with_context sv q chunks s =
      (case generate_greeting_response sv q s of (r, s1) \<Rightarrow> (Inr r, s1))) = is_pure_greeting q \<and>
   (is_pure_greeting q \<longrightarrow>
      calls (snd (process_query_with_context sv q chunks s)) = calls s) \<and>
   (\<not> is_pure_greeting q \<longrightarrow> meaningful_chunks_of chunks = [] \<longrightarrow>
      fst (process_query_with_context sv q chunks s) = Inr ''No context found for your query.'' \<and>
      world (snd (process_query_with_context sv q chunks s)) = world s \<and>
      calls (snd (process_query_with_context sv q chunks s)) = calls s) \<and>
   (\<not> is_pure_greeting q \<longrightarrow> meaningful_chunks_of chunks \<noteq> [] \<longrightarrow>
      (\<exists>rest. calls (snd (process_query_with_context sv q chunks s)) =
         calls s @ ChatCompletion
           \<lparr>llm_model = ''gpt-3.5-turbo'',
            system_content = generate_system_prompt
              (py_join [CHR 0x0A, CHR 0x0A] (meaningful_chunks_of chunks)),
            user_content = q, max_tokens = 500\<rparr> # rest))"
proof -
  let ?g = "case generate_greeting_response sv q s of (r, s1) \<Rightarrow> (Inr r, s1)"
  have iff: "is_pure_greeting q =
     (py_lower (py_strip q) \<in> set pure_greetings \<union> (\<lambda>g. g @ ''!'') ` set pure_greetings)"
    by (simp only: is_pure_greeting_def greeting_loop_iff py_lower_strip)
  have h: "is_pure_greeting ''hello''" by code_simp
  have ht: "\<not> is_pure_greeting ''hello there''" by code_simp
  have hh: "\<not> is_pure_greeting ''Hello, how are you?''" by code_simp
  have gfst: "fst ?g = Inr (fst (generate_greeting_response sv q s))"
    by (cases "generate_greeting_response sv q s") simp
  have gcalls: "calls (snd ?g) = calls s"
    using generate_greeting_response_calls[of sv q s]
    by (cases "generate_greeting_response sv q s") simp
  have yes: "is_pure_greeting q \<Longrightarrow> process_query_with_context sv q chunks s = ?g"
    by (simp add: process_query_with_context_def)
  have no: "process_query_with_context sv q chunks s \<noteq> ?g" if ng: "\<not> is_pure_greeting q"
  proof (cases "meaningful_chunks_of chunks = []")
    case True
    have "fst (process_query_with_context sv q chunks s) = Inr ''No context found for your query.''"
      by (rule gate_no_context(1)[OF ng True])
    moreover have "fst ?g \<noteq> Inr ''No context found for your query.''"
      using generate_greeting_response_template[of sv q s] no_context_not_greeting
      unfolding gfst by auto
    ultimately show ?thesis by auto
  next
    case False
    from gate_generate_calls[OF ng False, of sv s]
    have "calls (snd (process_query_with_context sv q chunks s)) \<noteq> calls s" by auto
    with gcalls show ?thesis by auto
  qed
  have gate: "(process_query_with_context sv q chunks s = ?g) = is_pure_greeting q"
    using yes no by blast
  have c: "is_pure_greeting q \<longrightarrow> calls (snd (process_query_with_context sv q chunks s)) = calls s"
  proof
    assume "is_pure_greeting q"
    from yes[OF this] gcalls show "calls (snd (process_query_with_context sv q chunks s)) = calls s"
      by (simp only:)
  qed
  have nc: "\<not> is_pure_greeting q \<longrightarrow> meaningful_chunks_of chunks = [] \<longrightarrow>
      fst (process_query_with_context sv q chunks s) = Inr ''No context found for your query.'' \<and>
      world (snd (process_query_with_context sv q chunks s)) = world s \<and>
      calls (snd (process_query_with_context sv q chunks s)) = calls s"
    using gate_no_context[of q chunks sv s] by blast
  have gen: "\<not> is_pure_greeting q \<longrightarrow> meaningful_chunks_of chunks \<noteq> [] \<longrightarrow>
      (\<exists>rest. calls (snd (process_query_with_context sv q chunks s)) =
         calls s @ ChatCompletion
           \<lparr>llm_model = ''gpt-3.5-turbo'',
            system_content = generate_system_prompt
              (py_join [CHR 0x0A, CHR 0x0A] (meaningful_chunks_of chunks)),
            user_content = q, max_tokens = 500\<rparr> # rest)"
    using gate_generate_calls[of q chunks sv s] by blast
  show ?thesis
    by (intro conjI) (rule iff, rule h, rule ht, rule hh, rule gate, rule c, rule nc, rule gen)
qed

theorem is_pure_greeting_exact_witness:
  "is_pure_greeting ''  Good Morning! '' \<and>
   py_lower (py_strip ''  Good Morning! '') = ''good morning!'' \<and>
   process_query_with_context (stub_services [] english_llm) ''  Good Morning! ''
       [''Returns accepted within 30 days of purchase with receipt.''] (stub_state []) =
     (Inr ''Good morning! How can I help you today?'', stub_state []) \<and>
   fst (process_query_with_context (stub_services [] english_llm) ''hello there''
       [''Returns accepted within 30 days of purchase with receipt.''] (stub_state [])) =
     Inr ''You can return items within 30 days.'' \<and>
   fst (process_query_with_context (stub_services [] english_llm) ''hello there''
       [''too short''] (stub_state [])) = Inr ''No context found for your query.''"
proof -
  let ?sv = "stub_services [] english_llm"
  let ?c = "[''Returns accepted within 30 days of purchase with receipt.'']"
  have m: "py_lower (py_strip ''  Good Morning! '') = ''good morning!''" by code_simp
  have mem: "py_lower (py_strip ''  Good Morning! '') \<in> set pure_greetings \<union> (\<lambda>g. g @ ''!'') ` set pure_greetings"
    unfolding m by (simp add: pure_greetings_def)
  have e: "(case generate_greeting_response ?sv ''  Good Morning! '' (stub_state []) of (r, s1) \<Rightarrow> (Inr r, s1))
      = (Inr ''Good morning! How can I help you today?'', stub_state [])"
    by (simp add: generate_greeting_response_def ambient_def stub_services_def stub_state_def greetings_def)
  have ht: "\<not> is_pure_greeting ''hello there''" by code_simp
  have mc: "meaningful_chunks_of ?c = ?c"
    by (simp add: meaningful_chunks_of_def py_strip_def py_isspace_def)
  have ms: "meaningful_chunks_of [''too short''] = []"
    by (simp add: meaningful_chunks_of_def py_strip_def py_isspace_def)
  have lo: "py_lower ''English'' = ''english''" by code_simp
  have st: "py_strip ''English'' = ''English''" by (simp add: py_strip_def py_isspace_def)
  have gen: "fst (process_query_with_context ?sv ''hello there'' ?c (stub_state [])) =
     Inr ''You can return items within 30 days.''"
    using ht mc lo st
    by (simp add: process_query_with_context_def generate_response_def detect_language_def
        external_def stub_services_def stub_state_def english_llm_def Let_def
        generate_system_prompt_def detect_system_prompt_def)
  from is_pure_greeting_exact[of "''  Good Morning! ''" ?sv ?c "stub_state []"] mem
  have g: "is_pure_greeting ''  Good Morning! ''"
    and "process_query_with_context ?sv ''  Good Morning! '' ?c (stub_state []) =
      (case generate_greeting_response ?sv ''  Good Morning! '' (stub_state []) of (r, s1) \<Rightarrow> (Inr r, s1))"
    by blast+
  moreover from is_pure_greeting_exact[of "''hello there''" ?sv "[''too short'']" "stub_state []"] ms
  have "fst (process_query_with_context ?sv ''hello there'' [''too short''] (stub_state [])) =
      Inr ''No context found for your query.''"
    by blast
  ultimately show ?thesis using m e gen by simp
qed

section \<open>The vector index client: the tenant scope of a query\<close>

lemma matches_tenant:
  "matches (FAnd [FEq ''organisation_id'' org, FEq ''project_id'' proj]) m =
     (md_organisation_id m = Some org \<and> md_project_id m = Some proj)"
  by (simp add: metadata_int_def)



section \<open>The message endpoint: the response of send_message\<close>

lemma ChatResponse_init_without_answer:
  "ChatResponse_init [''response'' \<mapsto> a, ''is_voice'' \<mapsto> b, ''timestamp'' \<mapsto> c] =
     Inl (ValidationError ''answer: field required'')"
  by (simp add: ChatResponse_init_def)

lemma send_message_try_fails: "\<exists>e. fst (send_message_try sv cfg chat_message s) = Inl e"
proof -
  obtain r1 s1 where a: "retrieve_relevant_chunks sv cfg (message chat_message)
      (organisation_id chat_message) (project_id chat_message) s = (r1, s1)"
    by (cases "retrieve_relevant_chunks sv cfg (message chat_message)
      (organisation_id chat_message) (project_id chat_message) s")
  show ?thesis
  proof (cases r1)
    case (Inl e)
    with a show ?thesis by (simp add: send_message_try_def)
  next
    case (Inr relevant_chunks)
    obtain r2 s2 where b: "process_query_with_context sv (message chat_message) relevant_chunks s1 = (r2, s2)"
      by (cases "process_query_with_context sv (message chat_message) relevant_chunks s1")
    show ?thesis
    proof (cases r2)
      case (Inl e)
      with a Inr b show ?thesis by (simp add: send_message_try_def)
    next
      case r2: (Inr ai_response)
      obtain now s3 where c: "ambient (time_time sv) s2 = (now, s3)"
        by (cases "ambient (time_time sv) s2")
      show ?thesis
        using a Inr b r2 c
        by (simp add: send_message_try_def ChatResponse_init_without_answer)
    qed
  qed
qed

text \<open>
  Claim C1 (the code departs from it). \<open>send_message\<close> puts the answer under the key
  \<open>response\<close>, so \<open>ChatResponse(**response)\<close> lacks the required field \<open>answer\<close>
  and raises; the handler of \<open>send_message\<close> turns that, like every other exception,
  into the 500 response. The endpoint therefore answers every request with
  \<open>HTTPException 500\<close>, also when embedding, retrieval and gate have succeeded.
\<close>

theorem send_message_always_500:
  "fst (send_message sv cfg chat_message s) =
     Inl (HTTPException 500 ''Failed to process message'')"
proof -
  obtain r s1 where t: "send_message_try sv cfg chat_message s = (r, s1)"
    by (cases "send_message_try sv cfg chat_message s")
  with send_message_try_fails[of sv cfg chat_message s] obtain e where "r = Inl e" by auto
  with t show ?thesis by (simp add: send_message_def)
qed

section \<open>A concrete run of the two HTTP endpoints\<close>

lemma english_llm_generate:
  "english_llm \<lparr>llm_model = m, system_content = generate_system_prompt c,
                 user_content = u, max_tokens = n\<rparr> = Inr ''You can return items within 30 days.''"
  by (simp add: english_llm_def generate_system_prompt_def detect_system_prompt_def)

lemma english_llm_detect:
  "english_llm \<lparr>llm_model = m, system_content = detect_system_prompt,
                 user_content = u, max_tokens = n\<rparr> = Inr ''English''"
  by (simp add: english_llm_def)

lemma return_policy_not_greeting: "\<not> is_pure_greeting ''What is your return policy?''"
  by code_simp

lemma lower_English: "py_lower ''English'' = ''english''"
  by code_simp

lemma strip_English: "py_strip ''English'' = ''English''"
  by (simp add: py_strip_def py_isspace_def)

lemma return_chunk_meaningful:
  "meaningful_chunks_of [''Returns accepted within 30 days of purchase with receipt.''] =
     [''Returns accepted within 30 days of purchase with receipt.'']"
  by (simp add: meaningful_chunks_of_def py_strip_def py_isspace_def)

lemma extract_stub_chunk:
  "extract_relevant_chunks \<lparr>vectors = Some [stub_chunk org proj c]\<rparr> = [c]"
  by (simp add: extract_relevant_chunks_def stub_chunk_def)


lemma retrieve_stub:
  "retrieve_relevant_chunks (stub_services vs llm)
       (default_settings\<lparr>VECTOR_DIMENSION := 4\<rparr>) q org proj
       \<lparr>world = (), calls = cs, logs = ls, active_connections = conns\<rparr> =
     (Inr (extract_relevant_chunks \<lparr>vectors = Some vs\<rparr>),
      \<lparr>world = (),
       calls = cs @
         [BedrockInvoke ''amazon.titan-embed-text-v2:0'' q,
          S3Query \<lparr>vectorBucketName = [], indexName = ''vault-ai-index'',
                   queryVector = [1, 2, 3, 4], returnMetadata = True,
                   filter_arg = FAnd [FEq ''organisation_id'' org, FEq ''project_id'' proj],
                   topK = 5\<rparr>],
       logs = ls, active_connections = conns\<rparr>)"
  by (simp add: retrieve_relevant_chunks_def get_embeddings_def external_def query_vectors_def
      stub_services_def default_settings_def fit_dimension_def Let_def)

lemma gate_stub_answer:
  assumes "\<not> is_pure_greeting q"
  shows "process_query_with_context (stub_services vs english_llm) q
       [''Returns accepted within 30 days of purchase with receipt.'']
       \<lparr>world = (), calls = cs, logs = ls, active_connections = conns\<rparr> =
     (Inr ''You can return items within 30 days.'',
      \<lparr>world = (),
       calls = cs @
         [ChatCompletion \<lparr>llm_model = ''gpt-3.5-turbo'',
            system_content = generate_system_prompt
              ''Returns accepted within 30 days of purchase with receipt.'',
            user_content = q, max_tokens = 500\<rparr>,
          ChatCompletion \<lparr>llm_model = ''gpt-3.5-turbo'', system_content = detect_system_prompt,
            user_content = take 500 q, max_tokens = 50\<rparr>],
       logs = ls, active_connections = conns\<rparr>)"
  using assms
  by (simp add: process_query_with_context_def return_chunk_meaningful generate_response_def
      detect_language_def external_def stub_services_def Let_def english_llm_generate
      english_llm_detect lower_English strip_English)

lemma stub_time_time: "ambient (time_time (stub_services vs llm)) s = (0, s)"
  by (simp add: ambient_def stub_services_def)

lemma send_message_answer_lost:
  "send_message (stub_services [stub_chunk 1 1 ''Returns accepted within 30 days of purchase with receipt.''] english_llm)
       (default_settings\<lparr>VECTOR_DIMENSION := 4\<rparr>)
       \<lparr>message = ''What is your return policy?'', organisation_id = 1, project_id = 1,
        is_voice = False\<rparr> (stub_state []) =
     (Inl (HTTPException 500 ''Failed to process message''),
      \<lparr>world = (),
       calls = [BedrockInvoke ''amazon.titan-embed-text-v2:0'' ''What is your return policy?'',
                S3Query \<lparr>vectorBucketName = [], indexName = ''vault-ai-index'',
                         queryVector = [1, 2, 3, 4], returnMetadata = True,
                         filter_arg = FAnd [FEq ''organisation_id'' 1, FEq ''project_id'' 1],
                         topK = 5\<rparr>,
                ChatCompletion \<lparr>llm_model = ''gpt-3.5-turbo'',
                  system_content = generate_system_prompt
                    ''Returns accepted within 30 days of purchase with receipt.'',
                  user_content = ''What is your return policy?'', max_tokens = 500\<rparr>,
                ChatCompletion \<lparr>llm_model = ''gpt-3.5-turbo'', system_content = detect_system_prompt,
                  user_content = ''What is your return policy?'', max_tokens = 50\<rparr>],
       logs = [(ERROR, ''Error processing chat message: {e}'')],
       active_connections = []\<rparr>)"
  by (simp add: send_message_def send_message_try_def retrieve_stub gate_stub_answer[OF return_policy_not_greeting]
      ChatResponse_init_without_answer log_msg_def stub_time_time stub_state_def
      extract_stub_chunk)

lemma chat_text_delivers_answer:
  "fst (chat (stub_services [stub_chunk 1 1 ''Returns accepted within 30 days of purchase with receipt.''] english_llm)
       (default_settings\<lparr>VECTOR_DIMENSION := 4\<rparr>)
       (Some ''What is your return policy?'') None 1 1 (stub_state [])) =
     Inr \<lparr>answer = ''You can return items within 30 days.'', transcript = None,
          audio_url = None, resp_is_voice = False, timestamp = 0\<rparr>"
proof -
  have st: "py_strip ''What is your return policy?'' = ''What is your return policy?''"
    by (simp add: py_strip_def py_isspace_def)
  show ?thesis
    by (simp add: chat_def chat_try_def truthy_def st retrieve_stub gate_stub_answer[OF return_policy_not_greeting]
        ChatResponse_init_def optional_str_def stub_time_time Let_def stub_state_def
        extract_stub_chunk)
qed

section \<open>Validation of the query text on the three entry paths\<close>

lemma get_embeddings_single_calls:
  "calls (snd (get_embeddings sv cfg [t] s)) = calls s @ [BedrockInvoke (EMBEDDING_MODEL_ID cfg) t]"
  by (simp add: get_embeddings_def external_def log_msg_def split: prod.splits sum.splits option.splits)

lemma query_vectors_calls:
  "\<exists>rest. calls (snd (query_vectors sv cfg v org proj k s)) = calls s @ rest"
  by (simp add: query_vectors_def external_def log_msg_def Let_def split: prod.splits sum.splits)

lemma process_query_with_context_calls:
  "\<exists>rest. calls (snd (process_query_with_context sv q chunks s)) = calls s @ rest"
proof (cases "is_pure_greeting q")
  case True
  then have "calls (snd (process_query_with_context sv q chunks s)) = calls s"
    using generate_greeting_response_calls[of sv q s]
    by (cases "generate_greeting_response sv q s") (simp add: process_query_with_context_def)
  then show ?thesis by simp
next
  case ng: False
  show ?thesis
  proof (cases "meaningful_chunks_of chunks = []")
    case True
    from gate_no_context(3)[OF ng True, of sv s] show ?thesis by simp
  next
    case False
    from gate_generate_calls[OF ng False, of sv s] show ?thesis by auto
  qed
qed

lemma retrieve_relevant_chunks_calls:
  "\<exists>rest. calls (snd (retrieve_relevant_chunks sv cfg t org proj s)) =
     calls s @ BedrockInvoke (EMBEDDING_MODEL_ID cfg) t # rest"
proof -
  obtain r s1 where e: "get_embeddings sv cfg [t] s = (r, s1)"
    by (cases "get_embeddings sv cfg [t] s")
  have c1: "calls s1 = calls s @ [BedrockInvoke (EMBEDDING_MODEL_ID cfg) t]"
    using get_embeddings_single_calls[of sv cfg t s] e by simp
  show ?thesis
  proof (cases r)
    case (Inl x)
    with e c1 show ?thesis by (simp add: retrieve_relevant_chunks_def)
  next
    case (Inr vs)
    show ?thesis
    proof (cases vs)
      case Nil
      with e c1 Inr show ?thesis by (simp add: retrieve_relevant_chunks_def)
    next
      case (Cons v rest)
      obtain r2 s2 where q: "query_vectors sv cfg v org proj 5 s1 = (r2, s2)"
        by (cases "query_vectors sv cfg v org proj 5 s1")
      obtain r3 where c2: "calls s2 = calls s1 @ r3"
        using query_vectors_calls[of sv cfg v org proj 5 s1] q by auto
      have "calls (snd (retrieve_relevant_chunks sv cfg t org proj s)) = calls s2"
        using e Inr Cons q by (cases r2) (simp_all add: retrieve_relevant_chunks_def)
      with c1 c2 show ?thesis by simp
    qed
  qed
qed

lemma send_message_try_calls:
  "\<exists>rest. calls (snd (send_message_try sv cfg chat_message s)) =
     calls s @ BedrockInvoke (EMBEDDING_MODEL_ID cfg) (message chat_message) # rest"
proof -
  let ?t = "message chat_message"
  obtain r s1 where e: "retrieve_relevant_chunks sv cfg ?t (organisation_id chat_message)
      (project_id chat_message) s = (r, s1)"
    by (cases "retrieve_relevant_chunks sv cfg ?t (organisation_id chat_message)
      (project_id chat_message) s")
  obtain r1 where c1: "calls s1 = calls s @ BedrockInvoke (EMBEDDING_MODEL_ID cfg) ?t # r1"
    using retrieve_relevant_chunks_calls[of sv cfg ?t "organisation_id chat_message"
        "project_id chat_message" s] e by auto
  show ?thesis
  proof (cases r)
    case (Inl x)
    with e c1 show ?thesis by (simp add: send_message_try_def)
  next
    case (Inr chunks)
    obtain r2 s2 where p: "process_query_with_context sv ?t chunks s1 = (r2, s2)"
      by (cases "process_query_with_context sv ?t chunks s1")
    obtain r3 where c2: "calls s2 = calls s1 @ r3"
      using process_query_with_context_calls[of sv ?t chunks s1] p by auto
    have "calls (snd (send_message_try sv cfg chat_message s)) = calls s2"
      using e Inr p
      by (cases r2) (simp_all add: send_message_try_def ambient_def split: prod.splits)
    with c1 c2 show ?thesis by simp
  qed
qed

lemma send_message_calls:
  "\<exists>rest. calls (snd (send_message sv cfg chat_message s)) =
     calls s @ BedrockInvoke (EMBEDDING_MODEL_ID cfg) (message chat_message) # rest"
proof -
  obtain r s1 where t: "send_message_try sv cfg chat_message s = (r, s1)"
    by (cases "send_message_try sv cfg chat_message s")
  have "calls (snd (send_message sv cfg chat_message s)) = calls s1"
    using t by (cases r) (simp_all add: send_message_def log_msg_def)
  with send_message_try_calls[of sv cfg chat_message s] t show ?thesis by simp
qed

lemma send_message_status:
  "fst (send_message sv cfg chat_message s) = Inl (HTTPException 500 ''Failed to process message'')"
proof -
  obtain r s1 where t: "send_message_try sv cfg chat_message s = (r, s1)"
    by (cases "send_message_try sv cfg chat_message s")
  with send_message_try_fails[of sv cfg chat_message s] obtain e where "r = Inl e" by auto
  with t show ?thesis by (simp add: send_message_def)
qed

lemma chat_blank_text_rejected:
  assumes "py_strip t = []"
  shows "chat sv cfg (Some t) None org proj s =
     (Inl (HTTPException 400 (if t = [] then ''Either text or audio must be provided''
                              else ''No text content found'')), s)"
  using assms by (simp add: chat_def chat_try_def truthy_def)

lemma chat_blank_transcript_rejected:
  assumes nt: "\<not> truthy text_arg"
    and u: "uuid4 sv (world s) = (u, w0)"
    and tr: "transcriptions_create sv content w0 = (Inr tr, w)"
    and blank: "py_strip tr = []"
  shows "chat sv cfg text_arg (Some content) org proj s =
           (Inl (HTTPException 400 ''No text content found''),
            s\<lparr>world := w, calls := calls s @ [WhisperTranscribe content]\<rparr>)"
  using nt u tr blank
  by (simp add: chat_def chat_try_def transcribe_audio_def external_def ambient_def)

lemma handle_user_message_blank_rejected:
  assumes "py_strip (case um_text msg of None \<Rightarrow> [] | Some t \<Rightarrow> t) = []"
  shows "handle_user_message sv cfg ws msg s =
           send_personal_message sv (ErrorFrame ''Empty message received'') ws s"
  using assms by (simp add: handle_user_message_def handle_user_message_try_def Let_def)

lemma send_personal_message_calls:
  "calls (send_personal_message sv f ws s) = calls s @ [SendText ws f]"
  by (simp add: send_personal_message_def external_def log_msg_def split: prod.splits sum.splits)

lemma blank_not_greeting: "\<not> is_pure_greeting ''   ''"
  by code_simp

lemma strip_blank: "py_strip ''   '' = []"
  by (simp add: py_strip_def py_isspace_def)

lemma send_message_blank_run:
  "send_message (stub_services [stub_chunk 1 1 ''Returns accepted within 30 days of purchase with receipt.''] english_llm)
       (default_settings\<lparr>VECTOR_DIMENSION := 4\<rparr>)
       \<lparr>message = ''   '', organisation_id = 1, project_id = 1, is_voice = False\<rparr>
       (stub_state []) =
     (Inl (HTTPException 500 ''Failed to process message''),
      \<lparr>world = (),
       calls = [BedrockInvoke ''amazon.titan-embed-text-v2:0'' ''   '',
                S3Query \<lparr>vectorBucketName = [], indexName = ''vault-ai-index'',
                         queryVector = [1, 2, 3, 4], returnMetadata = True,
                         filter_arg = FAnd [FEq ''organisation_id'' 1, FEq ''project_id'' 1],
                         topK = 5\<rparr>,
                ChatCompletion \<lparr>llm_model = ''gpt-3.5-turbo'',
                  system_content = generate_system_prompt
                    ''Returns accepted within 30 days of purchase with receipt.'',
                  user_content = ''   '', max_tokens = 500\<rparr>,
                ChatCompletion \<lparr>llm_model = ''gpt-3.5-turbo'', system_content = detect_system_prompt,
                  user_content = ''   '', max_tokens = 50\<rparr>],
       logs = [(ERROR, ''Error processing chat message: {e}'')],
       active_connections = []\<rparr>)"
  by (simp add: send_message_def send_message_try_def retrieve_stub
      gate_stub_answer[OF blank_not_greeting]
      ChatResponse_init_without_answer log_msg_def stub_time_time stub_state_def
      extract_stub_chunk)

text \<open>
  Claim C6 (the code departs from it). \<open>send_message\<close> does not look at the message
  before it embeds it: for every message, the empty and the whitespace-only ones too,
  the first call it makes is the embedding of the message as it was sent, and its
  response is never a 400. The two other entry paths do reject such a text before any
  step runs: \<open>chat\<close> answers 400 and leaves the state as it was, and the realtime
  handler does nothing but send the error frame \<open>Empty message received\<close>.
\<close>

theorem send_message_embeds_blank_message:
  "(\<exists>rest. calls (snd (send_message sv cfg chat_message s)) =
       calls s @ BedrockInvoke (EMBEDDING_MODEL_ID cfg) (message chat_message) # rest) \<and>
   fst (send_message sv cfg chat_message s) \<noteq> Inl (HTTPException 400 detail) \<and>
   (py_strip t = [] \<longrightarrow>
      chat sv cfg (Some t) None org proj s =
        (Inl (HTTPException 400 (if t = [] then ''Either text or audio must be provided''
                                 else ''No text content found'')), s) \<and>
      handle_user_message sv cfg ws
          \<lparr>um_text = Some t, um_isVoice = v, um_organisation_id = uo, um_project_id = up\<rparr> s =
        send_personal_message sv (ErrorFrame ''Empty message received'') ws s \<and>
      calls (handle_user_message sv cfg ws
          \<lparr>um_text = Some t, um_isVoice = v, um_organisation_id = uo, um_project_id = up\<rparr> s) =
        calls s @ [SendText ws (ErrorFrame ''Empty message received'')])"
proof -
  have a: "\<exists>rest. calls (snd (send_message sv cfg chat_message s)) =
       calls s @ BedrockInvoke (EMBEDDING_MODEL_ID cfg) (message chat_message) # rest"
    by (rule send_message_calls)
  have b: "fst (send_message sv cfg chat_message s) \<noteq> Inl (HTTPException 400 detail)"
    by (simp add: send_message_status)
  have c: "py_strip t = [] \<longrightarrow>
      chat sv cfg (Some t) None org proj s =
        (Inl (HTTPException 400 (if t = [] then ''Either text or audio must be provided''
                                 else ''No text content found'')), s) \<and>
      handle_user_message sv cfg ws
          \<lparr>um_text = Some t, um_isVoice = v, um_organisation_id = uo, um_project_id = up\<rparr> s =
        send_personal_message sv (ErrorFrame ''Empty message received'') ws s \<and>
      calls (handle_user_message sv cfg ws
          \<lparr>um_text = Some t, um_isVoice = v, um_organisation_id = uo, um_project_id = up\<rparr> s) =
        calls s @ [SendText ws (ErrorFrame ''Empty message received'')]"
  proof
    assume blank: "py_strip t = []"
    have h: "handle_user_message sv cfg ws
          \<lparr>um_text = Some t, um_isVoice = v, um_organisation_id = uo, um_project_id = up\<rparr> s =
        send_personal_message sv (ErrorFrame ''Empty message received'') ws s"
      by (rule handle_user_message_blank_rejected) (simp add: blank)
    show "chat sv cfg (Some t) None org proj s =
        (Inl (HTTPException 400 (if t = [] then ''Either text or audio must be provided''
                                 else ''No text content found'')), s) \<and>
      handle_user_message sv cfg ws
          \<lparr>um_text = Some t, um_isVoice = v, um_organisation_id = uo, um_project_id = up\<rparr> s =
        send_personal_message sv (ErrorFrame ''Empty message received'') ws s \<and>
      calls (handle_user_message sv cfg ws
          \<lparr>um_text = Some t, um_isVoice = v, um_organisation_id = uo, um_project_id = up\<rparr> s) =
        calls s @ [SendText ws (ErrorFrame ''Empty message received'')]"
      using chat_blank_text_rejected[OF blank, of sv cfg org proj s] h
        send_personal_message_calls[of sv "ErrorFrame ''Empty message received''" ws s]
      by (simp only: simp_thms)
  qed
  from a b c show ?thesis by (intro conjI)
qed

theorem send_message_embeds_blank_message_witness:
  "py_strip ''   '' = [] \<and>
   hd (calls (snd (send_message
       (stub_services [stub_chunk 1 1 ''Returns accepted within 30 days of purchase with receipt.''] english_llm)
       (default_settings\<lparr>VECTOR_DIMENSION := 4\<rparr>)
       \<lparr>message = ''   '', organisation_id = 1, project_id = 1, is_voice = False\<rparr>
       (stub_state [])))) = BedrockInvoke ''amazon.titan-embed-text-v2:0'' ''   '' \<and>
   chat (stub_services [stub_chunk 1 1 ''Returns accepted within 30 days of purchase with receipt.''] english_llm)
       (default_settings\<lparr>VECTOR_DIMENSION := 4\<rparr>) (Some ''   '') None 1 1 (stub_state []) =
     (Inl (HTTPException 400 ''No text content found''), stub_state []) \<and>
   calls (handle_user_message
       (stub_services [stub_chunk 1 1 ''Returns accepted within 30 days of purchase with receipt.''] english_llm)
       (default_settings\<lparr>VECTOR_DIMENSION := 4\<rparr>) 0
       \<lparr>um_text = Some ''   '', um_isVoice = None, um_organisation_id = Some 1,
        um_project_id = Some 1\<rparr> (stub_state [0])) =
     [SendText 0 (ErrorFrame ''Empty message received'')]"
proof -
  let ?sv = "stub_services [stub_chunk 1 1 ''Returns accepted within 30 days of purchase with receipt.''] english_llm"
  let ?cfg = "default_settings\<lparr>VECTOR_DIMENSION := 4\<rparr>"
  let ?m = "\<lparr>message = ''   '', organisation_id = 1, project_id = 1, is_voice = False\<rparr>"
  from send_message_embeds_blank_message[of ?sv ?cfg ?m "stub_state []", THEN conjunct1]
  obtain rest where "calls (snd (send_message ?sv ?cfg ?m (stub_state []))) =
      calls (stub_state []) @ BedrockInvoke (EMBEDDING_MODEL_ID ?cfg) (message ?m) # rest"
    by blast
  then have "hd (calls (snd (send_message ?sv ?cfg ?m (stub_state [])))) =
      BedrockInvoke ''amazon.titan-embed-text-v2:0'' ''   ''"
    by (simp add: stub_state_def default_settings_def)
  moreover have "chat ?sv ?cfg (Some ''   '') None 1 1 (stub_state []) =
     (Inl (HTTPException 400 ''No text content found''), stub_state [])"
    using send_message_embeds_blank_message[where sv = ?sv and cfg = ?cfg and s = "stub_state []"
        and t = "''   ''" and org = 1 and proj = 1,
        THEN conjunct2, THEN conjunct2, THEN mp, OF strip_blank, THEN conjunct1]
    by simp
  moreover have "calls (handle_user_message ?sv ?cfg 0
       \<lparr>um_text = Some ''   '', um_isVoice = None, um_organisation_id = Some 1,
        um_project_id = Some 1\<rparr> (stub_state [0])) =
     [SendText 0 (ErrorFrame ''Empty message received'')]"
    using send_message_embeds_blank_message[where sv = ?sv and cfg = ?cfg and s = "stub_state [0]"
        and t = "''   ''" and ws = 0 and v = None and uo = "Some 1" and up = "Some 1",
        THEN conjunct2, THEN conjunct2, THEN mp, OF strip_blank, THEN conjunct2, THEN conjunct2]
    by (simp add: stub_state_def)
  ultimately show ?thesis using strip_blank by simp
qed

section \<open>The no-context answer on every entry path\<close>















section \<open>The connection manager: a send that fails\<close>







section \<open>The answer gate: the language of the generated answer\<close>

lemma gate_generate_result:
  assumes ng: "\<not> is_pure_greeting q"
    and m: "meaningful_chunks_of chunks \<noteq> []"
    and g: "generate_response sv q (py_join [CHR 0x0A, CHR 0x0A] (meaningful_chunks_of chunks)) s
              = (Inr ai, s1)"
    and d: "detect_language sv q s1 = (lang, s2)"
  shows "process_query_with_context sv q chunks s =
     (if py_lower lang \<noteq> ''english'' \<and> py_lower lang \<noteq> ''en''
      then (case translate_content sv ai ''English'' lang s2 of
              (Inl e, s3) \<Rightarrow>
                (Inr ai,
                 log_msg ERROR ''Failed to translate AI response to English: {e}. Returning original response.'' s3)
            | (Inr translation_result, s3) \<Rightarrow> (Inr (translated_content translation_result), s3))
      else (Inr ai, s2))"
proof -
  from m have ne: "chunks \<noteq> []" by (auto simp: meaningful_chunks_of_def)
  show ?thesis
    using ng ne m g d by (simp add: process_query_with_context_def Let_def)
qed

lemma translate_content_failure:
  assumes "chat_completions_create sv
      \<lparr>llm_model = ''gpt-3.5-turbo'', system_content = translate_system_prompt src tgt,
       user_content = c, max_tokens = 2000\<rparr> (world s) = (Inl e, w)"
  shows "translate_content sv c tgt src s =
     (Inl e,
      s\<lparr>world := w,
        calls := calls s @
          [ChatCompletion \<lparr>llm_model = ''gpt-3.5-turbo'',
             system_content = translate_system_prompt src tgt,
             user_content = c, max_tokens = 2000\<rparr>],
        logs := logs s @ [(ERROR, ''Failed to translate content: {e}''),
                         (ERROR, ''Translation error type: {type(e)}'')]\<rparr>)"
  using assms by (simp add: translate_content_def external_def log_msg_def Let_def)

lemma translate_content_success:
  assumes "chat_completions_create sv
      \<lparr>llm_model = ''gpt-3.5-turbo'', system_content = translate_system_prompt src tgt,
       user_content = c, max_tokens = 2000\<rparr> (world s) = (Inr tr, w)"
  shows "\<exists>r s3. translate_content sv c tgt src s = (Inr r, s3) \<and> translated_content r = tr \<and>
           (src \<noteq> [] \<longrightarrow> s3 = s\<lparr>world := w,
              calls := calls s @
                [ChatCompletion \<lparr>llm_model = ''gpt-3.5-turbo'',
                   system_content = translate_system_prompt src tgt,
                   user_content = c, max_tokens = 2000\<rparr>]\<rparr>)"
proof (cases "src = []")
  case True
  obtain l s2 where "detect_language sv c
      (s\<lparr>world := w, calls := calls s @
          [ChatCompletion \<lparr>llm_model = ''gpt-3.5-turbo'',
             system_content = translate_system_prompt src tgt,
             user_content = c, max_tokens = 2000\<rparr>]\<rparr>) = (l, s2)"
    by (cases "detect_language sv c
      (s\<lparr>world := w, calls := calls s @
          [ChatCompletion \<lparr>llm_model = ''gpt-3.5-turbo'',
             system_content = translate_system_prompt src tgt,
             user_content = c, max_tokens = 2000\<rparr>]\<rparr>)")
  with True assms show ?thesis
    by (simp add: translate_content_def external_def Let_def)
next
  case False
  with assms show ?thesis
    by (simp add: translate_content_def external_def Let_def)
qed

lemma generate_response_scripted:
  "generate_response (stub_services vs (scripted_llm (Inr a) d t)) q ctx
       \<lparr>world = (), calls = cs, logs = ls, active_connections = conns\<rparr> =
     (Inr a,
      \<lparr>world = (),
       calls = cs @ [ChatCompletion \<lparr>llm_model = ''gpt-3.5-turbo'',
                       system_content = generate_system_prompt ctx,
                       user_content = q, max_tokens = 500\<rparr>],
       logs = ls, active_connections = conns\<rparr>)"
  by (simp add: generate_response_def external_def stub_services_def scripted_llm_def)

lemma detect_language_scripted:
  "detect_language (stub_services vs (scripted_llm g (Inr l) t)) q
       \<lparr>world = (), calls = cs, logs = ls, active_connections = conns\<rparr> =
     (py_strip l,
      \<lparr>world = (),
       calls = cs @ [ChatCompletion \<lparr>llm_model = ''gpt-3.5-turbo'',
                       system_content = detect_system_prompt,
                       user_content = take 500 q, max_tokens = 50\<rparr>],
       logs = ls, active_connections = conns\<rparr>)"
  by (simp add: detect_language_def external_def stub_services_def scripted_llm_def)

lemma translation_scripted:
  "chat_completions_create (stub_services vs (scripted_llm g d t))
       \<lparr>llm_model = m, system_content = p, user_content = c, max_tokens = 2000\<rparr> w = (t, w)"
  by (simp add: stub_services_def scripted_llm_def)

lemma join_return_chunk:
  "py_join [CHR 0x0A, CHR 0x0A]
       (meaningful_chunks_of [''Returns accepted within 30 days of purchase with receipt.'']) =
     ''Returns accepted within 30 days of purchase with receipt.''"
  by (simp add: return_chunk_meaningful)

lemma french_query_not_greeting: "\<not> is_pure_greeting ''Quelle est la politique de retour ?''"
  by code_simp

lemma lower_French: "py_lower ''French'' = ''french''"
  by code_simp

lemma strip_French: "py_strip ''French'' = ''French''"
  by (simp add: py_strip_def py_isspace_def)

lemma lower_ENGLISH: "py_lower ''ENGLISH'' = ''english''"
  by code_simp

lemma strip_ENGLISH: "py_strip '' ENGLISH '' = ''ENGLISH''"
  by (simp add: py_strip_def py_isspace_def)

text \<open>
  Claim C8. After the answer has been generated for a query that is not a greeting,
  the language detected for the query decides. If it is \<open>english\<close> or \<open>en\<close> in any
  letter case, the gate returns the generated answer and makes no further call. If it
  is not, the gate makes the translation call for the generated answer, from the
  detected language to English: when that call answers, its text is the final answer;
  when it fails, the gate still succeeds, with the generated answer, and the failure
  is logged.
\<close>

theorem generated_answer_translated_unless_english:
  assumes ng: "\<not> is_pure_greeting q"
    and m: "meaningful_chunks_of chunks \<noteq> []"
    and g: "generate_response sv q (py_join [CHR 0x0A, CHR 0x0A] (meaningful_chunks_of chunks)) s
              = (Inr ai, s1)"
    and d: "detect_language sv q s1 = (lang, s2)"
  shows
    "(py_lower lang = ''english'' \<or> py_lower lang = ''en'' \<longrightarrow>
        process_query_with_context sv q chunks s = (Inr ai, s2)) \<and>
     (py_lower lang \<noteq> ''english'' \<and> py_lower lang \<noteq> ''en'' \<longrightarrow>
        (\<forall>tr w. chat_completions_create sv
                   \<lparr>llm_model = ''gpt-3.5-turbo'',
                    system_content = translate_system_prompt lang ''English'',
                    user_content = ai, max_tokens = 2000\<rparr> (world s2) = (Inr tr, w) \<longrightarrow>
           fst (process_query_with_context sv q chunks s) = Inr tr \<and>
           (\<exists>rest. calls (snd (process_query_with_context sv q chunks s)) =
              calls s2 @ ChatCompletion
                \<lparr>llm_model = ''gpt-3.5-turbo'',
                 system_content = translate_system_prompt lang ''English'',
                 user_content = ai, max_tokens = 2000\<rparr> # rest)) \<and>
        (\<forall>e w. chat_completions_create sv
                   \<lparr>llm_model = ''gpt-3.5-turbo'',
                    system_content = translate_system_prompt lang ''English'',
                    user_content = ai, max_tokens = 2000\<rparr> (world s2) = (Inl e, w) \<longrightarrow>
           process_query_with_context sv q chunks s =
             (Inr ai,
              s2\<lparr>world := w,
                 calls := calls s2 @
                   [ChatCompletion \<lparr>llm_model = ''gpt-3.5-turbo'',
                      system_content = translate_system_prompt lang ''English'',
                      user_content = ai, max_tokens = 2000\<rparr>],
                 logs := logs s2 @
                   [(ERROR, ''Failed to translate content: {e}''),
                    (ERROR, ''Translation error type: {type(e)}''),
                    (ERROR, ''Failed to translate AI response to English: {e}. Returning original response.'')]\<rparr>)))"
proof -
  let ?req = "\<lparr>llm_model = ''gpt-3.5-turbo'',
      system_content = translate_system_prompt lang ''English'',
      user_content = ai, max_tokens = 2000\<rparr>"
  note res = gate_generate_result[OF ng m g d]
  have en: "py_lower lang = ''english'' \<or> py_lower lang = ''en'' \<longrightarrow>
        process_query_with_context sv q chunks s = (Inr ai, s2)"
    unfolding res by auto
  have ok: "fst (process_query_with_context sv q chunks s) = Inr tr \<and>
           (\<exists>rest. calls (snd (process_query_with_context sv q chunks s)) =
              calls s2 @ ChatCompletion ?req # rest)"
    if ne: "py_lower lang \<noteq> ''english'' \<and> py_lower lang \<noteq> ''en''"
      and c: "chat_completions_create sv ?req (world s2) = (Inr tr, w)" for tr w
  proof -
    from translate_content_success[OF c] obtain r s3 where
      t: "translate_content sv ai ''English'' lang s2 = (Inr r, s3)"
      and tc: "translated_content r = tr"
      by blast
    have p: "process_query_with_context sv q chunks s = (Inr tr, s3)"
      unfolding res using ne t tc by simp
    have "\<exists>rest. calls s3 = calls s2 @ ChatCompletion ?req # rest"
    proof (cases "lang = []")
      case False
      with translate_content_success[OF c] t show ?thesis by auto
    next
      case True
      obtain l s4 where dl: "detect_language sv ai
          (s2\<lparr>world := w, calls := calls s2 @ [ChatCompletion ?req]\<rparr>) = (l, s4)"
        by (cases "detect_language sv ai
          (s2\<lparr>world := w, calls := calls s2 @ [ChatCompletion ?req]\<rparr>)")
      from detect_language_calls[of sv ai "s2\<lparr>world := w, calls := calls s2 @ [ChatCompletion ?req]\<rparr>"]
        dl obtain rest where "calls s4 = (calls s2 @ [ChatCompletion ?req]) @ rest"
        by auto
      moreover have "s3 = s4"
        using t c True dl by (simp add: translate_content_def external_def Let_def)
      ultimately show ?thesis by simp
    qed
    with p show ?thesis by simp
  qed
  have bad: "process_query_with_context sv q chunks s =
             (Inr ai,
              s2\<lparr>world := w,
                 calls := calls s2 @ [ChatCompletion ?req],
                 logs := logs s2 @
                   [(ERROR, ''Failed to translate content: {e}''),
                    (ERROR, ''Translation error type: {type(e)}''),
                    (ERROR, ''Failed to translate AI response to English: {e}. Returning original response.'')]\<rparr>)"
    if ne: "py_lower lang \<noteq> ''english'' \<and> py_lower lang \<noteq> ''en''"
      and c: "chat_completions_create sv ?req (world s2) = (Inl e, w)" for e w
    unfolding res using ne translate_content_failure[OF c] by (simp add: log_msg_def)
  from en ok bad show ?thesis by blast
qed

theorem generated_answer_translated_unless_english_witness:
  "fst (process_query_with_context
          (stub_services [] (scripted_llm (Inr ''Les retours sont acceptes sous 30 jours.'')
             (Inr ''French'') (Inr ''Returns are accepted within 30 days.'')))
          ''Quelle est la politique de retour ?''
          [''Returns accepted within 30 days of purchase with receipt.''] (stub_state [])) =
     Inr ''Returns are accepted within 30 days.'' \<and>
   fst (process_query_with_context
          (stub_services [] (scripted_llm (Inr ''Les retours sont acceptes sous 30 jours.'')
             (Inr ''French'') (Inl (UpstreamError ''rate limit''))))
          ''Quelle est la politique de retour ?''
          [''Returns accepted within 30 days of purchase with receipt.''] (stub_state [])) =
     Inr ''Les retours sont acceptes sous 30 jours.'' \<and>
   process_query_with_context
          (stub_services [] (scripted_llm (Inr ''You can return items within 30 days.'')
             (Inr '' ENGLISH '') (Inr ''never used'')))
          ''What is your return policy?''
          [''Returns accepted within 30 days of purchase with receipt.''] (stub_state []) =
     (Inr ''You can return items within 30 days.'',
      \<lparr>world = (),
       calls = [ChatCompletion \<lparr>llm_model = ''gpt-3.5-turbo'',
                  system_content = generate_system_prompt
                    ''Returns accepted within 30 days of purchase with receipt.'',
                  user_content = ''What is your return policy?'', max_tokens = 500\<rparr>,
                ChatCompletion \<lparr>llm_model = ''gpt-3.5-turbo'',
                  system_content = detect_system_prompt,
                  user_content = ''What is your return policy?'', max_tokens = 50\<rparr>],
       logs = [], active_connections = []\<rparr>)"
proof -
  let ?c = "[''Returns accepted within 30 days of purchase with receipt.'']"
  let ?ctx = "''Returns accepted within 30 days of purchase with receipt.''"
  let ?fr = "''Quelle est la politique de retour ?''"
  let ?en = "''What is your return policy?''"
  let ?ai = "''Les retours sont acceptes sous 30 jours.''"
  let ?ok = "stub_services [] (scripted_llm (Inr ?ai) (Inr ''French'')
      (Inr ''Returns are accepted within 30 days.''))"
  let ?bad = "stub_services [] (scripted_llm (Inr ?ai) (Inr ''French'')
      (Inl (UpstreamError ''rate limit'')))"
  let ?eng = "stub_services [] (scripted_llm (Inr ''You can return items within 30 days.'')
      (Inr '' ENGLISH '') (Inr ''never used''))"
  let ?s1 = "\<lambda>q. \<lparr>world = (),
       calls = [ChatCompletion \<lparr>llm_model = ''gpt-3.5-turbo'',
                  system_content = generate_system_prompt ?ctx,
                  user_content = q, max_tokens = 500\<rparr>],
       logs = [], active_connections = ([]::nat list)\<rparr>"
  let ?s2 = "\<lambda>q. \<lparr>world = (),
       calls = [ChatCompletion \<lparr>llm_model = ''gpt-3.5-turbo'',
                  system_content = generate_system_prompt ?ctx,
                  user_content = q, max_tokens = 500\<rparr>,
                ChatCompletion \<lparr>llm_model = ''gpt-3.5-turbo'',
                  system_content = detect_system_prompt,
                  user_content = q, max_tokens = 50\<rparr>],
       logs = [], active_connections = ([]::nat list)\<rparr>"
  have m: "meaningful_chunks_of ?c \<noteq> []" by (simp add: return_chunk_meaningful)
  have nfr: "py_lower ''French'' \<noteq> ''english'' \<and> py_lower ''French'' \<noteq> ''en''"
    by (simp add: lower_French)
  have g1: "generate_response ?ok ?fr (py_join [CHR 0x0A, CHR 0x0A] (meaningful_chunks_of ?c))
      (stub_state []) = (Inr ?ai, ?s1 ?fr)"
    by (simp only: join_return_chunk stub_state_def generate_response_scripted append_Nil)
  have d1: "detect_language ?ok ?fr (?s1 ?fr) = (''French'', ?s2 ?fr)"
    by (simp add: detect_language_scripted strip_French)
  have g2: "generate_response ?bad ?fr (py_join [CHR 0x0A, CHR 0x0A] (meaningful_chunks_of ?c))
      (stub_state []) = (Inr ?ai, ?s1 ?fr)"
    by (simp only: join_return_chunk stub_state_def generate_response_scripted append_Nil)
  have d2: "detect_language ?bad ?fr (?s1 ?fr) = (''French'', ?s2 ?fr)"
    by (simp add: detect_language_scripted strip_French)
  have g3: "generate_response ?eng ?en (py_join [CHR 0x0A, CHR 0x0A] (meaningful_chunks_of ?c))
      (stub_state []) = (Inr ''You can return items within 30 days.'', ?s1 ?en)"
    by (simp only: join_return_chunk stub_state_def generate_response_scripted append_Nil)
  have d3: "detect_language ?eng ?en (?s1 ?en) = (''ENGLISH'', ?s2 ?en)"
    by (simp add: detect_language_scripted strip_ENGLISH)
  have a: "fst (process_query_with_context ?ok ?fr ?c (stub_state [])) =
      Inr ''Returns are accepted within 30 days.''"
    using generated_answer_translated_unless_english[OF french_query_not_greeting m g1 d1,
        THEN conjunct2, THEN mp, OF nfr, THEN conjunct1, THEN spec, THEN spec, THEN mp,
        OF translation_scripted, THEN conjunct1]
    by simp
  have b: "fst (process_query_with_context ?bad ?fr ?c (stub_state [])) = Inr ?ai"
    using generated_answer_translated_unless_english[OF french_query_not_greeting m g2 d2,
        THEN conjunct2, THEN mp, OF nfr, THEN conjunct2, THEN spec, THEN spec, THEN mp,
        OF translation_scripted]
    by simp
  have c: "process_query_with_context ?eng ?en ?c (stub_state []) =
      (Inr ''You can return items within 30 days.'', ?s2 ?en)"
    using generated_answer_translated_unless_english[OF return_policy_not_greeting m g3 d3,
        THEN conjunct1] lower_ENGLISH
    by simp
  from a b c show ?thesis by simp
qed

section \<open>The answer gate: a language detection that fails\<close>

lemma lower_Unknown: "py_lower ''Unknown'' = ''unknown''"
  by code_simp

lemma detect_language_failure:
  assumes "chat_completions_create sv
      \<lparr>llm_model = ''gpt-3.5-turbo'', system_content = detect_system_prompt,
       user_content = take 500 t, max_tokens = 50\<rparr> (world s) = (Inl e, w)"
  shows "detect_language sv t s =
     (''Unknown'',
      s\<lparr>world := w,
        calls := calls s @
          [ChatCompletion \<lparr>llm_model = ''gpt-3.5-turbo'', system_content = detect_system_prompt,
             user_content = take 500 t, max_tokens = 50\<rparr>],
        logs := logs s @
          [(WARNING, ''Language detection failed: {e}, defaulting to 'Unknown'' @ [CHR 0x27])]\<rparr>)"
  using assms by (simp add: detect_language_def external_def log_msg_def Let_def)

lemma detect_language_scripted_failure:
  "chat_completions_create (stub_services vs (scripted_llm g (Inl e) t))
       \<lparr>llm_model = m, system_content = p, user_content = c, max_tokens = 50\<rparr> w = (Inl e, w)"
  by (simp add: stub_services_def scripted_llm_def)

text \<open>
  Claim C10. When the call that detects the language of the query fails,
  \<open>detect_language\<close> does not fail: it logs a warning and returns \<open>Unknown\<close>. The
  gate compares that with \<open>english\<close> and \<open>en\<close>, so after the detection call it makes
  the translation call for the generated answer, from \<open>Unknown\<close> to English, whatever
  the language of the query is. If the translator answers, its text replaces the
  generated answer; if it fails too, the generated answer is returned.
\<close>

theorem detection_failure_triggers_translation:
  assumes ng: "\<not> is_pure_greeting q"
    and m: "meaningful_chunks_of chunks \<noteq> []"
    and g: "generate_response sv q (py_join [CHR 0x0A, CHR 0x0A] (meaningful_chunks_of chunks)) s
              = (Inr ai, s1)"
    and df: "chat_completions_create sv
               \<lparr>llm_model = ''gpt-3.5-turbo'', system_content = detect_system_prompt,
                user_content = take 500 q, max_tokens = 50\<rparr> (world s1) = (Inl e, w)"
  shows
    "fst (detect_language sv q s1) = ''Unknown'' \<and>
     logs (snd (detect_language sv q s1)) =
       logs s1 @ [(WARNING, ''Language detection failed: {e}, defaulting to 'Unknown'' @ [CHR 0x27])] \<and>
     calls (snd (process_query_with_context sv q chunks s)) =
       calls s1 @
         [ChatCompletion \<lparr>llm_model = ''gpt-3.5-turbo'', system_content = detect_system_prompt,
            user_content = take 500 q, max_tokens = 50\<rparr>,
          ChatCompletion \<lparr>llm_model = ''gpt-3.5-turbo'',
            system_content = translate_system_prompt ''Unknown'' ''English'',
            user_content = ai, max_tokens = 2000\<rparr>] \<and>
     fst (process_query_with_context sv q chunks s) =
       (case fst (chat_completions_create sv
                    \<lparr>llm_model = ''gpt-3.5-turbo'',
                     system_content = translate_system_prompt ''Unknown'' ''English'',
                     user_content = ai, max_tokens = 2000\<rparr> w) of
          Inl e' \<Rightarrow> Inr ai
        | Inr tr \<Rightarrow> Inr tr)"
proof -
  let ?dreq = "\<lparr>llm_model = ''gpt-3.5-turbo'', system_content = detect_system_prompt,
            user_content = take 500 q, max_tokens = 50\<rparr>"
  let ?treq = "\<lparr>llm_model = ''gpt-3.5-turbo'',
            system_content = translate_system_prompt ''Unknown'' ''English'',
            user_content = ai, max_tokens = 2000\<rparr>"
  let ?s2 = "s1\<lparr>world := w, calls := calls s1 @ [ChatCompletion ?dreq],
        logs := logs s1 @
          [(WARNING, ''Language detection failed: {e}, defaulting to 'Unknown'' @ [CHR 0x27])]\<rparr>"
  have d: "detect_language sv q s1 = (''Unknown'', ?s2)"
    by (rule detect_language_failure[OF df])
  have res: "process_query_with_context sv q chunks s =
      (case translate_content sv ai ''English'' ''Unknown'' ?s2 of
         (Inl e, s3) \<Rightarrow>
           (Inr ai,
            log_msg ERROR ''Failed to translate AI response to English: {e}. Returning original response.'' s3)
       | (Inr translation_result, s3) \<Rightarrow> (Inr (translated_content translation_result), s3))"
    using gate_generate_result[OF ng m g d] by (simp add: lower_Unknown)
  obtain r w' where c: "chat_completions_create sv ?treq w = (r, w')"
    by (cases "chat_completions_create sv ?treq w")
  have p: "calls (snd (process_query_with_context sv q chunks s)) =
       calls s1 @ [ChatCompletion ?dreq, ChatCompletion ?treq] \<and>
     fst (process_query_with_context sv q chunks s) =
       (case r of Inl e' \<Rightarrow> Inr ai | Inr tr \<Rightarrow> Inr tr)"
  proof (cases r)
    case (Inl e')
    with c have "chat_completions_create sv ?treq (world ?s2) = (Inl e', w')" by simp
    from translate_content_failure[OF this] Inl show ?thesis
      unfolding res by (simp add: log_msg_def)
  next
    case (Inr tr)
    with c have "chat_completions_create sv ?treq (world ?s2) = (Inr tr, w')" by simp
    from translate_content_success[OF this] Inr show ?thesis
      unfolding res by auto
  qed
  from d p c show ?thesis by simp
qed

theorem detection_failure_triggers_translation_witness:
  "fst (process_query_with_context
       (stub_services [] (scripted_llm (Inr ''You can return items within 30 days.'')
          (Inl (UpstreamError ''timeout'')) (Inr ''Items can be returned within thirty days.'')))
       ''What is your return policy?''
       [''Returns accepted within 30 days of purchase with receipt.''] (stub_state [])) =
     Inr ''Items can be returned within thirty days.'' \<and>
   calls (snd (process_query_with_context
       (stub_services [] (scripted_llm (Inr ''You can return items within 30 days.'')
          (Inl (UpstreamError ''timeout'')) (Inr ''Items can be returned within thirty days.'')))
       ''What is your return policy?''
       [''Returns accepted within 30 days of purchase with receipt.''] (stub_state []))) =
     [ChatCompletion \<lparr>llm_model = ''gpt-3.5-turbo'',
        system_content = generate_system_prompt
          ''Returns accepted within 30 days of purchase with receipt.'',
        user_content = ''What is your return policy?'', max_tokens = 500\<rparr>,
      ChatCompletion \<lparr>llm_model = ''gpt-3.5-turbo'',
        system_content = detect_system_prompt,
        user_content = ''What is your return policy?'', max_tokens = 50\<rparr>,
      ChatCompletion \<lparr>llm_model = ''gpt-3.5-turbo'',
        system_content = translate_system_prompt ''Unknown'' ''English'',
        user_content = ''You can return items within 30 days.'', max_tokens = 2000\<rparr>] \<and>
   fst (detect_language
       (stub_services [] (scripted_llm (Inr ''You can return items within 30 days.'')
          (Inl (UpstreamError ''timeout'')) (Inr ''Items can be returned within thirty days.'')))
       ''What is your return policy?''
       \<lparr>world = (),
        calls = [ChatCompletion \<lparr>llm_model = ''gpt-3.5-turbo'',
                   system_content = generate_system_prompt
                     ''Returns accepted within 30 days of purchase with receipt.'',
                   user_content = ''What is your return policy?'', max_tokens = 500\<rparr>],
        logs = [], active_connections = []\<rparr>) = ''Unknown''"
proof -
  let ?c = "[''Returns accepted within 30 days of purchase with receipt.'']"
  let ?ctx = "''Returns accepted within 30 days of purchase with receipt.''"
  let ?q = "''What is your return policy?''"
  let ?ai = "''You can return items within 30 days.''"
  let ?sv = "stub_services [] (scripted_llm (Inr ?ai) (Inl (UpstreamError ''timeout''))
      (Inr ''Items can be returned within thirty days.''))"
  let ?s1 = "\<lparr>world = (),
       calls = [ChatCompletion \<lparr>llm_model = ''gpt-3.5-turbo'',
                  system_content = generate_system_prompt ?ctx,
                  user_content = ?q, max_tokens = 500\<rparr>],
       logs = [], active_connections = ([]::nat list)\<rparr>"
  have m: "meaningful_chunks_of ?c \<noteq> []" by (simp add: return_chunk_meaningful)
  have g: "generate_response ?sv ?q (py_join [CHR 0x0A, CHR 0x0A] (meaningful_chunks_of ?c))
      (stub_state []) = (Inr ?ai, ?s1)"
    by (simp only: join_return_chunk stub_state_def generate_response_scripted append_Nil)
  have df: "chat_completions_create ?sv
      \<lparr>llm_model = ''gpt-3.5-turbo'', system_content = detect_system_prompt,
       user_content = take 500 ?q, max_tokens = 50\<rparr> (world ?s1) =
      (Inl (UpstreamError ''timeout''), ())"
    by (simp add: detect_language_scripted_failure)
  note inst = detection_failure_triggers_translation[OF return_policy_not_greeting m g df]
  have a: "fst (process_query_with_context ?sv ?q ?c (stub_state [])) =
      Inr ''Items can be returned within thirty days.''"
    using inst[THEN conjunct2, THEN conjunct2, THEN conjunct2]
    by (simp add: translation_scripted)
  have b: "calls (snd (process_query_with_context ?sv ?q ?c (stub_state []))) =
      [ChatCompletion \<lparr>llm_model = ''gpt-3.5-turbo'',
                  system_content = generate_system_prompt ?ctx,
                  user_content = ?q, max_tokens = 500\<rparr>,
       ChatCompletion \<lparr>llm_model = ''gpt-3.5-turbo'',
                  system_content = detect_system_prompt,
                  user_content = ?q, max_tokens = 50\<rparr>,
       ChatCompletion \<lparr>llm_model = ''gpt-3.5-turbo'',
                  system_content = translate_system_prompt ''Unknown'' ''English'',
                  user_content = ?ai, max_tokens = 2000\<rparr>]"
    using inst[THEN conjunct2, THEN conjunct2, THEN conjunct1] by simp
  from a b inst[THEN conjunct1] show ?thesis by (intro conjI)
qed

end
